theory Spec2Isabelle
  imports Main "HOL-Library.Char_ord" "HOL-Library.List_Lexorder" "HOL-Library.Product_Lexorder"
begin

section \<open>Data model\<close>

text \<open>
  The relational store of the SkyWings backend, restricted to the tables and columns
  the booking and check-in handlers read or write (schema.sql). A table is the list of
  its rows in insertion order. Timestamps are milliseconds since the epoch; prices and
  amounts are hundredths of the currency unit (the columns are DECIMAL(10,2)). The status
  and class columns are ENUM columns and hold the member strings as schema.sql declares
  them.
\<close>

record aircraft_row =
  ac_id :: nat
  ac_capacity :: int

record flight_row =
  f_id :: nat
  f_number :: string
  f_aircraft_id :: nat
  f_from :: string
  f_to :: string
  f_departure :: int
  f_arrival :: int
  f_status :: string
  f_base_price :: int
  f_business_price :: int
  f_first_class_price :: int

record booking_row =
  b_id :: nat
  b_reference :: string
  b_user_id :: nat
  b_flight_id :: nat
  b_passengers :: nat
  b_class :: string
  b_total_amount :: int
  b_status :: string
  b_payment_status :: string

record passenger_row =
  p_id :: nat
  p_user_id :: "nat option"
  p_first_name :: string
  p_last_name :: string
  p_date_of_birth :: "string option"
  p_passport_number :: "string option"
  p_nationality :: "string option"
  p_saved :: bool

record booking_passenger_row =
  bp_id :: nat
  bp_booking_id :: nat
  bp_passenger_id :: nat
  bp_seat_number :: "string option"

record check_in_row =
  ci_id :: nat
  ci_booking_id :: nat
  ci_datetime :: int
  ci_gate_number :: string
  ci_boarding_time :: int
  ci_status :: string

record store =
  aircraft :: "aircraft_row list"
  flights :: "flight_row list"
  bookings :: "booking_row list"
  passengers :: "passenger_row list"
  booking_passengers :: "booking_passenger_row list"
  check_ins :: "check_in_row list"

subsection \<open>Strings, collation and column types\<close>

text \<open>
  Strings are ASCII. \<open>trim\<close> removes the white space at both ends,
  \<open>toUpperCase\<close> and LOWER map the letters a-z and A-Z.
\<close>

definition is_space :: "char \<Rightarrow> bool" where
  "is_space c = (c \<in> set [CHR '' '', CHR 0x09, CHR 0x0A, CHR 0x0B, CHR 0x0C, CHR 0x0D])"

definition trim :: "string \<Rightarrow> string" where
  "trim str = rev (dropWhile is_space (rev (dropWhile is_space str)))"

definition is_upper :: "char \<Rightarrow> bool" where
  "is_upper c = (65 \<le> (of_char c :: nat) \<and> (of_char c :: nat) \<le> 90)"

definition is_lower :: "char \<Rightarrow> bool" where
  "is_lower c = (97 \<le> (of_char c :: nat) \<and> (of_char c :: nat) \<le> 122)"

definition is_digit :: "char \<Rightarrow> bool" where
  "is_digit c = (48 \<le> (of_char c :: nat) \<and> (of_char c :: nat) \<le> 57)"

definition upper_char :: "char \<Rightarrow> char" where
  "upper_char c = (if is_lower c then char_of ((of_char c :: nat) - 32) else c)"

definition lower_char :: "char \<Rightarrow> char" where
  "lower_char c = (if is_upper c then char_of ((of_char c :: nat) + 32) else c)"

definition toUpperCase :: "string \<Rightarrow> string" where
  "toUpperCase str = map upper_char str"

definition lower :: "string \<Rightarrow> string" where
  "lower str = map lower_char str"

text \<open>
  The tables and the connection use a case-insensitive PAD SPACE collation
  (utf8mb4_unicode_ci): two strings compare equal in SQL when they differ only in the
  case of letters and in trailing spaces. \<open>collate\<close> is the key of that comparison.
\<close>

definition rstrip :: "string \<Rightarrow> string" where
  "rstrip str = rev (dropWhile (\<lambda>c. c = CHR '' '') (rev str))"

definition collate :: "string \<Rightarrow> string" where
  "collate str = rstrip (lower str)"

definition sql_eq :: "string \<Rightarrow> string \<Rightarrow> bool" where
  "sql_eq a b = (collate a = collate b)"

text \<open>
  The server runs in strict SQL mode (the default), so a value that does not fit its
  column makes the statement fail.
  A VARCHAR(n) column takes a string of at most n characters; trailing spaces beyond n
  are cut off, any other excess is an error.
\<close>

definition varchar :: "nat \<Rightarrow> string \<Rightarrow> string option" where
  "varchar n v =
     (if length v \<le> n then Some v
      else if list_all (\<lambda>c. c = CHR '' '') (drop n v) then Some (take n v)
      else None)"

fun varchar_opt :: "nat \<Rightarrow> string option \<Rightarrow> string option option" where
  "varchar_opt n None = Some None"
| "varchar_opt n (Some v) = map_option Some (varchar n v)"

text \<open>
  An ENUM column takes a string that, its trailing spaces removed, equals one of its
  members but for the case of letters, and stores that member. A string that is no member
  but is shorter than six characters and reads as a decimal number (white space and a sign
  may precede the digits) is taken as the index of a member, index 0 being the empty string;
  anything else is an error.
\<close>

fun find_member :: "string list \<Rightarrow> string \<Rightarrow> string option" where
  "find_member [] v = None"
| "find_member (m # ms) v = (if sql_eq m v then Some m else find_member ms v)"

definition digit_value :: "char \<Rightarrow> nat" where
  "digit_value c = (of_char c :: nat) - 48"

definition decimal_value :: "string \<Rightarrow> nat" where
  "decimal_value ds = foldl (\<lambda>acc c. 10 * acc + digit_value c) 0 ds"

definition unsigned_index :: "string \<Rightarrow> nat option" where
  "unsigned_index ds = (if ds \<noteq> [] \<and> list_all is_digit ds then Some (decimal_value ds) else None)"

definition enum_index :: "string \<Rightarrow> nat option" where
  "enum_index v =
     (case dropWhile is_space v of
        [] \<Rightarrow> None
      | c # cs \<Rightarrow>
          if c = CHR ''+'' then unsigned_index cs
          else if c = CHR ''-''
          then (case unsigned_index cs of
                  None \<Rightarrow> None
                | Some k \<Rightarrow> if k = 0 then Some 0 else None)
          else unsigned_index (c # cs))"

definition enum_store :: "string list \<Rightarrow> string \<Rightarrow> string option" where
  "enum_store members v =
     (case find_member members v of
        Some m \<Rightarrow> Some m
      | None \<Rightarrow>
          if length (rstrip v) < 6
          then (case enum_index (rstrip v) of
                  None \<Rightarrow> None
                | Some k \<Rightarrow>
                    if k = 0 then Some []
                    else if k \<le> length members then Some (members ! (k - 1))
                    else None)
          else None)"

text \<open>The ENUM columns of schema.sql.\<close>

definition booking_statuses :: "string list" where
  "booking_statuses = [''pending'', ''confirmed'', ''cancelled'', ''completed'']"

definition payment_statuses :: "string list" where
  "payment_statuses = [''pending'', ''paid'', ''refunded'']"

definition fare_classes :: "string list" where
  "fare_classes = [''economy'', ''business'', ''first'']"

definition flight_statuses :: "string list" where
  "flight_statuses = [''scheduled'', ''delayed'', ''cancelled'', ''completed'', ''boarding'']"

subsection \<open>Database calls\<close>

text \<open>
  A statement fails when a value does not fit its column, when a foreign key of the row
  names no row, or when a unique key is taken; these checks are part of the statements
  below. Every awaited database call may also throw for a reason outside the store (a lost
  connection) or for a value the store does not describe (a date string that is no date,
  an airport code without an airport, a user id without a user). The calls of one request
  are numbered from 0 in the order the handler
  issues them, \<open>beginTransaction\<close> and \<open>commit\<close> included; the parameter \<open>flt\<close> of a
  handler names the call that throws for such a reason, \<open>None\<close> when none does. The first
  call that throws ends the handler in its catch block, so one number is enough. Taking
  and releasing the connection and \<open>rollback\<close> do not throw; a rollback restores the store
  the request started from, and a commit that throws commits nothing.
\<close>

type_synonym fault = "nat option"

definition throws :: "fault \<Rightarrow> nat \<Rightarrow> bool" where
  "throws flt k = (flt = Some k)"

text \<open>
  An AUTO_INCREMENT key: one more than the largest key of the table (the counter is taken
  not to have run ahead of the table).
\<close>

fun max_id :: "nat list \<Rightarrow> nat" where
  "max_id [] = 0"
| "max_id (x # xs) = max x (max_id xs)"

definition next_id :: "nat list \<Rightarrow> nat" where
  "next_id ids = Suc (max_id ids)"

text \<open>\<open>rows[0] || null\<close> of \<open>queryOne\<close>.\<close>

fun first_row :: "'a list \<Rightarrow> 'a option" where
  "first_row [] = None"
| "first_row (x # xs) = Some x"

text \<open>\<open>value || null\<close> on an optional string: the empty string is falsy.\<close>

fun or_null :: "string option \<Rightarrow> string option" where
  "or_null None = None"
| "or_null (Some v) = (if v = [] then None else Some v)"

text \<open>A numeric id used as a condition: absent and 0 are falsy.\<close>

fun truthy_id :: "nat option \<Rightarrow> nat option" where
  "truthy_id None = None"
| "truthy_id (Some n) = (if n = 0 then None else Some n)"

subsection \<open>Responses\<close>

datatype message =
    MsgNone
  | MsgFlightAndPassengersRequired
  | MsgFlightNotFoundOrUnavailable
  | MsgNotEnoughSeats int
  | MsgBookingCreated
  | MsgCreateFailed
  | MsgInvalidBookingId
  | MsgBookingNotFound
  | MsgAlreadyCancelled
  | MsgCannotCancelCompleted
  | MsgBookingCancelled
  | MsgCancelFailed
  | MsgValidStatusRequired
  | MsgStatusUpdated
  | MsgUpdateStatusFailed
  | MsgValidationFailed
  | MsgBookingRefNotFound
  | MsgAccessDenied
  | MsgCannotBeCheckedIn string
  | MsgLastNameMismatch
  | MsgAlreadyCheckedIn
  | MsgDepartedMissedIfNotCheckedIn
  | MsgCheckInOpensIn int
  | MsgSearchFailed
  | MsgBookingNotFoundOrCannotCheckIn
  | MsgFlightNotFound
  | MsgDepartedMarkedMissed
  | MsgCheckInOpens24h
  | MsgSeatCountMismatch nat nat
  | MsgCheckInConfirmed
  | MsgConfirmFailed
  | MsgFlightsRetrieved
  | MsgFlightSearchFailed
  | MsgInvalidFlightId
  | MsgFlightNumberExists
  | MsgNoFieldsToUpdate
  | MsgArrivalAfterDeparture
  | MsgFlightUpdated
  | MsgUpdateFlightFailed

text \<open>
  A JavaScript number is an IEEE 754 double. \<open>Finite m e\<close> is the number \<open>m * 2^e\<close>: a
  normal number has \<open>2^52 \<le> |m| < 2^53\<close> and \<open>-1074 \<le> e \<le> 971\<close>, a subnormal one has
  \<open>|m| < 2^52\<close> and \<open>e = -1074\<close>, and zero is \<open>Finite 0 0\<close> (the sign of a zero is not
  kept: JSON prints both zeros as 0). \<open>Infinite neg\<close> is the infinity of that sign.
\<close>

datatype double = Finite int int | Infinite bool | NotANumber

function bit_length :: "int \<Rightarrow> int" where
  "bit_length n = (if n \<le> 0 then 0 else 1 + bit_length (n div 2))"
  by auto
termination
  by (relation "measure nat") auto

declare bit_length.simps [simp del]

function pow2 :: "int \<Rightarrow> int" where
  "pow2 e = (if e \<le> 0 then 1 else 2 * pow2 (e - 1))"
  by auto
termination
  by (relation "measure nat") auto

declare pow2.simps [simp del]

text \<open>\<open>a / b\<close> rounded to the nearest integer, ties to the even one (\<open>0 \<le> a\<close>, \<open>0 < b\<close>).\<close>

definition round_half_even :: "int \<Rightarrow> int \<Rightarrow> int" where
  "round_half_even a b =
     (let q = a div b; r = a mod b
      in if 2 * r < b then q
         else if b < 2 * r then q + 1
         else if even q then q else q + 1)"

text \<open>\<open>a / (b * 2^e)\<close> rounded to the nearest integer.\<close>

definition scaled :: "int \<Rightarrow> int \<Rightarrow> int \<Rightarrow> int" where
  "scaled a b e =
     (if 0 \<le> e then round_half_even a (b * pow2 e) else round_half_even (a * pow2 (- e)) b)"

text \<open>The integer part of the binary logarithm of \<open>a / b\<close> (\<open>0 < a\<close>, \<open>0 < b\<close>).\<close>

definition exponent_of :: "int \<Rightarrow> int \<Rightarrow> int" where
  "exponent_of a b =
     (let k = bit_length a - bit_length b
      in if (if 0 \<le> k then b * pow2 k \<le> a else b \<le> a * pow2 (- k)) then k else k - 1)"

text \<open>
  The double nearest to \<open>a / b\<close> (\<open>0 \<le> a\<close>, \<open>0 < b\<close>) with the sign \<open>neg\<close>, ties to
  even: the quotient is scaled to 53 bits, or to the subnormal exponent, and rounded; a
  mantissa that rounds up to \<open>2^53\<close> moves to the next exponent, and an exponent above 971
  overflows to infinity.
\<close>

definition round_to_double :: "bool \<Rightarrow> int \<Rightarrow> int \<Rightarrow> double" where
  "round_to_double neg a b =
     (if a \<le> 0 then Finite 0 0
      else
        let e = max (exponent_of a b - 52) (- 1074);
            m = scaled a b e;
            m' = (if m = pow2 53 then pow2 52 else m);
            e' = (if m = pow2 53 then e + 1 else e)
        in if m' = 0 then Finite 0 0
           else if 971 < e' then Infinite neg
           else Finite (if neg then - m' else m') e')"

text \<open>\<open>parseFloat\<close> of a DECIMAL(10,2) value, given in hundredths.\<close>

definition double_of_decimal :: "int \<Rightarrow> double" where
  "double_of_decimal p = round_to_double (p < 0) \<bar>p\<bar> 100"

definition double_of_int :: "int \<Rightarrow> double" where
  "double_of_int n = round_to_double (n < 0) \<bar>n\<bar> 1"

text \<open>The product of two doubles: the exact product, rounded once.\<close>

fun double_times :: "double \<Rightarrow> double \<Rightarrow> double" where
  "double_times NotANumber y = NotANumber"
| "double_times (Infinite a) NotANumber = NotANumber"
| "double_times (Infinite a) (Infinite b) = Infinite (a \<noteq> b)"
| "double_times (Infinite a) (Finite m e) =
     (if m = 0 then NotANumber else Infinite (a \<noteq> (m < 0)))"
| "double_times (Finite m e) NotANumber = NotANumber"
| "double_times (Finite m e) (Infinite b) =
     (if m = 0 then NotANumber else Infinite ((m < 0) \<noteq> b))"
| "double_times (Finite m1 e1) (Finite m2 e2) =
     (if 0 \<le> e1 + e2
      then round_to_double (m1 * m2 < 0) (\<bar>m1 * m2\<bar> * pow2 (e1 + e2)) 1
      else round_to_double (m1 * m2 < 0) \<bar>m1 * m2\<bar> (pow2 (- (e1 + e2))))"

text \<open>
  What \<open>parseInt\<close> makes of a parameter: \<open>NaN\<close>, or the integer it reads, which as a
  JavaScript number is the double nearest to it.
\<close>

datatype js_number = Num int | NaN

fun number_of :: "js_number \<Rightarrow> double" where
  "number_of (Num n) = double_of_int n"
| "number_of NaN = NotANumber"

record passenger_view =
  pv_passenger :: passenger_row
  pv_seat_number :: "string option"
  pv_booking_passenger_id :: nat

record flight_view =
  fv_flight :: flight_row
  fv_capacity :: int
  fv_price :: int
  fv_available_seats :: int
  fv_total_price :: double

datatype payload =
    NoData
  | BookingData "booking_row option"
  | CheckinData booking_row "passenger_view list option" bool
  | ConfirmData nat string int
  | FlightsData "flight_view list"

record response =
  r_code :: nat
  r_success :: bool
  r_message :: message
  r_data :: payload

definition reply :: "nat \<Rightarrow> bool \<Rightarrow> message \<Rightarrow> response" where
  "reply c ok m = \<lparr>r_code = c, r_success = ok, r_message = m, r_data = NoData\<rparr>"

definition reply_data :: "nat \<Rightarrow> bool \<Rightarrow> message \<Rightarrow> payload \<Rightarrow> response" where
  "reply_data c ok m d = \<lparr>r_code = c, r_success = ok, r_message = m, r_data = d\<rparr>"

section \<open>Booking routes (routes/bookings.js)\<close>

subsection \<open>Queries and statements shared by the handlers\<close>

text \<open>
  The fare CASE of the flight queries: \<open>WHEN ? = 'economy' THEN f.base_price ...\<close>, the
  comparisons being SQL string comparisons.
\<close>

definition fare_price :: "string \<Rightarrow> flight_row \<Rightarrow> int" where
  "fare_price cls f =
     (if sql_eq cls ''economy'' then f_base_price f
      else if sql_eq cls ''business'' then f_business_price f
      else if sql_eq cls ''first'' then f_first_class_price f
      else f_base_price f)"

definition bookable :: "flight_row \<Rightarrow> bool" where
  "bookable f = (f_status f = ''scheduled'' \<or> f_status f = ''boarding'')"

text \<open>
  \<open>FROM flights f INNER JOIN aircraft a ON f.aircraft_id = a.aircraft_id
  WHERE f.flight_id = ? AND f.status IN ('scheduled', 'boarding')\<close>
\<close>

definition bookable_flights :: "store \<Rightarrow> nat \<Rightarrow> (flight_row \<times> aircraft_row) list" where
  "bookable_flights s fid =
     concat (map (\<lambda>f. map (\<lambda>a. (f, a)) (filter (\<lambda>a. f_aircraft_id f = ac_id a) (aircraft s)))
                 (filter (\<lambda>f. f_id f = fid \<and> bookable f) (flights s)))"

text \<open>
  \<open>SELECT COUNT(*) FROM booking_passengers bp INNER JOIN bookings b
  ON bp.booking_id = b.booking_id WHERE b.flight_id = ? AND b.status != 'cancelled'\<close>:
  the number of joined rows.
\<close>

definition counted :: "nat \<Rightarrow> nat \<Rightarrow> booking_row \<Rightarrow> bool" where
  "counted fid bid b = (b_id b = bid \<and> b_flight_id b = fid \<and> b_status b \<noteq> ''cancelled'')"

definition booked_seats :: "store \<Rightarrow> nat \<Rightarrow> nat" where
  "booked_seats s fid =
     sum_list (map (\<lambda>bp. length (filter (counted fid (bp_booking_id bp)) (bookings s)))
                   (booking_passengers s))"

text \<open>The rows of \<open>bookings\<close> with id \<open>bid\<close> rewritten by \<open>g\<close>.\<close>

definition update_bookings :: "nat \<Rightarrow> (booking_row \<Rightarrow> booking_row) \<Rightarrow> store \<Rightarrow> store" where
  "update_bookings bid g s =
     s\<lparr>bookings := map (\<lambda>b. if b_id b = bid then g b else b) (bookings s)\<rparr>"

text \<open>
  \<open>UPDATE bookings SET status = ? [, payment_status = ?] WHERE booking_id = ?\<close>. The
  strings are stored through the ENUM columns \<open>status\<close> and \<open>payment_status\<close>; the
  statement fails (\<open>None\<close>) when a row is to be written and a string is not accepted by
  its column. With no row of that id nothing is stored and nothing fails.
\<close>

definition update_booking_status ::
  "nat \<Rightarrow> string \<Rightarrow> string option \<Rightarrow> store \<Rightarrow> store option" where
  "update_booking_status bid status payment_status s =
     (if \<not> list_ex (\<lambda>b. b_id b = bid) (bookings s) then Some s
      else case enum_store booking_statuses status of
             None \<Rightarrow> None
           | Some st \<Rightarrow>
               (case payment_status of
                  None \<Rightarrow> Some (update_bookings bid (\<lambda>b. b\<lparr>b_status := st\<rparr>) s)
                | Some p \<Rightarrow>
                    (case enum_store payment_statuses p of
                       None \<Rightarrow> None
                     | Some pst \<Rightarrow>
                         Some (update_bookings bid
                                 (\<lambda>b. b\<lparr>b_status := st, b_payment_status := pst\<rparr>) s))))"

text \<open>\<open>SELECT * FROM bookings WHERE booking_id = ? AND user_id = ?\<close>\<close>

definition own_bookings :: "store \<Rightarrow> nat \<Rightarrow> nat \<Rightarrow> booking_row list" where
  "own_bookings s bid uid = filter (\<lambda>b. b_id b = bid \<and> b_user_id b = uid) (bookings s)"

subsection \<open>POST /create\<close>

text \<open>
  A passenger descriptor of the request body. The names are the strings bound to the
  INSERT; a descriptor without a name makes that INSERT throw, which is the failing call
  of the passenger insert, and so does a date of birth that is no date. The class of the
  request is a string.
\<close>

record passenger_input =
  pi_passenger_id :: "nat option"
  pi_first_name :: string
  pi_last_name :: string
  pi_date_of_birth :: "string option"
  pi_passport_number :: "string option"
  pi_nationality :: "string option"
  pi_save :: bool
  pi_seat_number :: "string option"

record create_request =
  cr_flight_id :: "nat option"
  cr_passengers :: "passenger_input list"
  cr_class :: "string option"

text \<open>
  \<open>INSERT INTO passengers\<close>: the names are VARCHAR(100), the passport number VARCHAR(50),
  the nationality VARCHAR(100).
\<close>

definition insert_passenger :: "nat \<Rightarrow> passenger_input \<Rightarrow> store \<Rightarrow> (nat \<times> store) option" where
  "insert_passenger uid d s =
     (case varchar 100 (pi_first_name d) of
        None \<Rightarrow> None
      | Some first_name \<Rightarrow>
     (case varchar 100 (pi_last_name d) of
        None \<Rightarrow> None
      | Some last_name \<Rightarrow>
     (case varchar_opt 50 (or_null (pi_passport_number d)) of
        None \<Rightarrow> None
      | Some passport_number \<Rightarrow>
     (case varchar_opt 100 (or_null (pi_nationality d)) of
        None \<Rightarrow> None
      | Some nationality \<Rightarrow>
          let pid = next_id (map p_id (passengers s))
          in Some (pid, s\<lparr>passengers := passengers s @
                [\<lparr>p_id = pid, p_user_id = Some uid,
                  p_first_name = first_name, p_last_name = last_name,
                  p_date_of_birth = or_null (pi_date_of_birth d),
                  p_passport_number = passport_number,
                  p_nationality = nationality,
                  p_saved = pi_save d\<rparr>]\<rparr>)))))"

text \<open>
  \<open>INSERT INTO booking_passengers\<close>: the passenger id is a foreign key into
  \<open>passengers\<close>, the seat number is VARCHAR(10). The booking is the one just inserted.
\<close>

definition insert_booking_passenger ::
  "nat \<Rightarrow> nat \<Rightarrow> string option \<Rightarrow> store \<Rightarrow> store option" where
  "insert_booking_passenger bid pid seat s =
     (if \<not> list_ex (\<lambda>p. p_id p = pid) (passengers s) then None
      else case varchar_opt 10 seat of
             None \<Rightarrow> None
           | Some seat_number \<Rightarrow>
               Some (s\<lparr>booking_passengers := booking_passengers s @
                      [\<lparr>bp_id = next_id (map bp_id (booking_passengers s)), bp_booking_id = bid,
                        bp_passenger_id = pid, bp_seat_number = seat_number\<rparr>]\<rparr>))"

text \<open>
  The loop over the passenger descriptors. \<open>k\<close> is the number of the next database
  call; the result is \<open>None\<close> when a call throws, the next call number and the store
  otherwise. A descriptor with a truthy \<open>passenger_id\<close> is linked as it is; any other
  descriptor first inserts a passenger row.
\<close>

fun add_passengers ::
  "fault \<Rightarrow> nat \<Rightarrow> nat \<Rightarrow> nat \<Rightarrow> passenger_input list \<Rightarrow> store \<Rightarrow> (nat \<times> store) option" where
  "add_passengers flt uid bid k [] s = Some (k, s)"
| "add_passengers flt uid bid k (d # ds) s =
     (case truthy_id (pi_passenger_id d) of
        Some pid \<Rightarrow>
          if throws flt k then None
          else (case insert_booking_passenger bid pid (or_null (pi_seat_number d)) s of
                  None \<Rightarrow> None
                | Some s2 \<Rightarrow> add_passengers flt uid bid (Suc k) ds s2)
      | None \<Rightarrow>
          if throws flt k then None
          else (case insert_passenger uid d s of
                  None \<Rightarrow> None
                | Some (pid, s1) \<Rightarrow>
                    if throws flt (Suc k) then None
                    else (case insert_booking_passenger bid pid (or_null (pi_seat_number d)) s1 of
                            None \<Rightarrow> None
                          | Some s2 \<Rightarrow> add_passengers flt uid bid (Suc (Suc k)) ds s2)))"

definition new_booking ::
  "nat \<Rightarrow> string \<Rightarrow> nat \<Rightarrow> nat \<Rightarrow> nat \<Rightarrow> string \<Rightarrow> int \<Rightarrow> booking_row" where
  "new_booking bid ref uid fid n cls amount =
     \<lparr>b_id = bid, b_reference = ref, b_user_id = uid, b_flight_id = fid, b_passengers = n,
      b_class = cls, b_total_amount = amount, b_status = ''confirmed'',
      b_payment_status = ''paid''\<rparr>"

text \<open>A DECIMAL(10,2) column holds at most ten digits, two of them after the point.\<close>

definition decimal_10_2 :: "int \<Rightarrow> bool" where
  "decimal_10_2 amount = (\<bar>amount\<bar> \<le> 9999999999)"

text \<open>
  \<open>INSERT INTO bookings\<close>: the reference is VARCHAR(20) and unique, the class is stored
  through the ENUM column \<open>class\<close>, the amount is DECIMAL(10,2). The result is the new
  booking id and the store.
\<close>

definition insert_booking ::
  "string \<Rightarrow> nat \<Rightarrow> nat \<Rightarrow> nat \<Rightarrow> string \<Rightarrow> int \<Rightarrow> store \<Rightarrow> (nat \<times> store) option" where
  "insert_booking ref uid fid n cls amount s =
     (case varchar 20 ref of
        None \<Rightarrow> None
      | Some reference \<Rightarrow>
          if list_ex (\<lambda>b. sql_eq (b_reference b) reference) (bookings s) then None
          else (case enum_store fare_classes cls of
                  None \<Rightarrow> None
                | Some stored_class \<Rightarrow>
                    if \<not> decimal_10_2 amount then None
                    else
                      let bid = next_id (map b_id (bookings s))
                      in Some (bid, s\<lparr>bookings := bookings s @
                                 [new_booking bid reference uid fid n stored_class amount]\<rparr>)))"

text \<open>
  The body of the transaction, up to the commit: \<open>Inl\<close> is the response of a path that
  rolls back (an early return or the catch block), \<open>Inr (k, bid, s')\<close> is the number
  of the commit call, the new booking id and the store to commit. \<open>ref\<close> is the booking
  reference the handler generated from the clock and the random source. The amount is
  the product of the price and the passenger count as a double; stored in the
  DECIMAL(10,2) column it is rounded to hundredths, which gives the exact product
  whenever that fits the column.
\<close>

definition create_tx ::
  "nat \<Rightarrow> string \<Rightarrow> fault \<Rightarrow> create_request \<Rightarrow> store \<Rightarrow> response + (nat \<times> nat \<times> store)" where
  "create_tx uid ref flt req s =
     (if throws flt 0 then Inl (reply 500 False MsgCreateFailed)
      else
        let flightClass = (case cr_class req of None \<Rightarrow> ''economy'' | Some c \<Rightarrow> c);
            n = length (cr_passengers req)
        in case truthy_id (cr_flight_id req) of
             None \<Rightarrow> Inl (reply 400 False MsgFlightAndPassengersRequired)
           | Some fid \<Rightarrow>
               if n = 0 then Inl (reply 400 False MsgFlightAndPassengersRequired)
               else if throws flt 1 then Inl (reply 500 False MsgCreateFailed)
               else (case bookable_flights s fid of
                       [] \<Rightarrow> Inl (reply 404 False MsgFlightNotFoundOrUnavailable)
                     | (f, a) # _ \<Rightarrow>
                         if throws flt 2 then Inl (reply 500 False MsgCreateFailed)
                         else
                           let availableSeats = ac_capacity a - int (booked_seats s fid)
                           in if availableSeats < int n
                              then Inl (reply 400 False (MsgNotEnoughSeats availableSeats))
                              else
                                let totalAmount = fare_price flightClass f * int n
                                in if throws flt 3 then Inl (reply 500 False MsgCreateFailed)
                                   else
                                     (case insert_booking ref uid fid n flightClass totalAmount s of
                                        None \<Rightarrow> Inl (reply 500 False MsgCreateFailed)
                                      | Some (bid, s0) \<Rightarrow>
                                          (case add_passengers flt uid bid 4 (cr_passengers req) s0 of
                                             None \<Rightarrow> Inl (reply 500 False MsgCreateFailed)
                                           | Some (k, s') \<Rightarrow> Inr (k, bid, s')))))"

text \<open>
  The read-back after the commit:
  \<open>FROM bookings b INNER JOIN flights f ON b.flight_id = f.flight_id ... WHERE b.booking_id = ?\<close>
  (the airports a flight names exist by foreign key).
\<close>

definition booking_details :: "store \<Rightarrow> nat \<Rightarrow> booking_row option" where
  "booking_details s bid =
     first_row (concat (map (\<lambda>b. map (\<lambda>f. b) (filter (\<lambda>f. f_id f = b_flight_id b) (flights s)))
                            (filter (\<lambda>b. b_id b = bid) (bookings s))))"

definition create_booking ::
  "nat \<Rightarrow> string \<Rightarrow> fault \<Rightarrow> create_request \<Rightarrow> store \<Rightarrow> response \<times> store" where
  "create_booking uid ref flt req s =
     (case create_tx uid ref flt req s of
        Inl r \<Rightarrow> (r, s)
      | Inr (k, bid, s') \<Rightarrow>
          if throws flt k then (reply 500 False MsgCreateFailed, s)
          else if throws flt (Suc k) then (reply 500 False MsgCreateFailed, s')
          else (reply_data 201 True MsgBookingCreated (BookingData (booking_details s' bid)), s'))"

subsection \<open>POST /:id/cancel\<close>

text \<open>The id parameter is \<open>None\<close> when \<open>parseInt\<close> gives \<open>NaN\<close>.\<close>

definition cancel_booking :: "nat \<Rightarrow> fault \<Rightarrow> nat option \<Rightarrow> store \<Rightarrow> response \<times> store" where
  "cancel_booking uid flt bookingId s =
     (if throws flt 0 then (reply 500 False MsgCancelFailed, s)
      else case bookingId of
        None \<Rightarrow> (reply 400 False MsgInvalidBookingId, s)
      | Some bid \<Rightarrow>
          if throws flt 1 then (reply 500 False MsgCancelFailed, s)
          else (case own_bookings s bid uid of
                  [] \<Rightarrow> (reply 404 False MsgBookingNotFound, s)
                | bookingData # _ \<Rightarrow>
                    if b_status bookingData = ''cancelled''
                    then (reply 400 False MsgAlreadyCancelled, s)
                    else if b_status bookingData = ''completed''
                    then (reply 400 False MsgCannotCancelCompleted, s)
                    else if throws flt 2 then (reply 500 False MsgCancelFailed, s)
                    else (case update_booking_status bid ''cancelled'' (Some ''refunded'') s of
                            None \<Rightarrow> (reply 500 False MsgCancelFailed, s)
                          | Some s' \<Rightarrow>
                              if throws flt 3 then (reply 500 False MsgCancelFailed, s)
                              else (reply 200 True MsgBookingCancelled, s'))))"

subsection \<open>POST /:id/update-status\<close>

definition update_status ::
  "nat \<Rightarrow> fault \<Rightarrow> nat option \<Rightarrow> string option \<Rightarrow> store \<Rightarrow> response \<times> store" where
  "update_status uid flt bookingId status s =
     (case bookingId of
        None \<Rightarrow> (reply 400 False MsgInvalidBookingId, s)
      | Some bid \<Rightarrow>
          (case or_null status of
             None \<Rightarrow> (reply 400 False MsgValidStatusRequired, s)
           | Some st \<Rightarrow>
               if st \<notin> set [''completed'', ''missed'', ''cancelled'']
               then (reply 400 False MsgValidStatusRequired, s)
               else if throws flt 0 then (reply 500 False MsgUpdateStatusFailed, s)
               else (case first_row (own_bookings s bid uid) of
                       None \<Rightarrow> (reply 404 False MsgBookingNotFound, s)
                     | Some booking \<Rightarrow>
                         if throws flt 1 then (reply 500 False MsgUpdateStatusFailed, s)
                         else (case update_booking_status bid st None s of
                                 None \<Rightarrow> (reply 500 False MsgUpdateStatusFailed, s)
                               | Some s' \<Rightarrow> (reply 200 True MsgStatusUpdated, s')))))"

section \<open>Check-in routes\<close>

subsection \<open>POST /search\<close>

record search_request =
  sr_booking_reference :: string
  sr_last_name :: string

text \<open>The validation chain, on the trimmed fields (a missing field is the empty string).\<close>

definition valid_reference :: "string \<Rightarrow> bool" where
  "valid_reference r =
     (r \<noteq> [] \<and> 5 \<le> length r \<and> length r \<le> 20 \<and> list_all (\<lambda>c. is_upper c \<or> is_digit c) r)"

definition valid_last_name :: "string \<Rightarrow> bool" where
  "valid_last_name n =
     (n \<noteq> [] \<and> 2 \<le> length n \<and> length n \<le> 100 \<and>
      list_all (\<lambda>c. is_lower c \<or> is_upper c \<or> is_space c \<or> c = CHR 0x27 \<or> c = CHR ''-'') n)"

text \<open>\<open>FROM bookings b INNER JOIN flights f ON b.flight_id = f.flight_id WHERE b.booking_reference = ?\<close>\<close>

definition bookings_by_reference :: "store \<Rightarrow> string \<Rightarrow> (booking_row \<times> flight_row) list" where
  "bookings_by_reference s r =
     concat (map (\<lambda>b. map (\<lambda>f. (b, f)) (filter (\<lambda>f. f_id f = b_flight_id b) (flights s)))
                 (filter (\<lambda>b. sql_eq (b_reference b) r) (bookings s)))"

text \<open>\<open>FROM booking_passengers bp INNER JOIN passengers p ON bp.passenger_id = p.passenger_id WHERE bp.booking_id = ?\<close>\<close>

definition booking_passenger_rows ::
  "store \<Rightarrow> nat \<Rightarrow> (booking_passenger_row \<times> passenger_row) list" where
  "booking_passenger_rows s bid =
     concat (map (\<lambda>bp. map (\<lambda>p. (bp, p)) (filter (\<lambda>p. bp_passenger_id bp = p_id p) (passengers s)))
                 (filter (\<lambda>bp. bp_booking_id bp = bid) (booking_passengers s)))"

text \<open>\<open>... AND LOWER(p.last_name) = LOWER(?)\<close>, an SQL string comparison.\<close>

definition passenger_match :: "store \<Rightarrow> nat \<Rightarrow> string \<Rightarrow> passenger_row option" where
  "passenger_match s bid last_name =
     first_row (filter (\<lambda>p. sql_eq (lower (p_last_name p)) (lower last_name))
                       (map snd (booking_passenger_rows s bid)))"

definition check_ins_of :: "store \<Rightarrow> nat \<Rightarrow> check_in_row list" where
  "check_ins_of s bid = filter (\<lambda>c. ci_booking_id c = bid) (check_ins s)"

text \<open>
  The passenger list of the response, \<open>ORDER BY p.last_name, p.first_name\<close>; the
  collation order is taken as the bytewise order of the lower-cased names.
\<close>

definition passenger_list :: "store \<Rightarrow> nat \<Rightarrow> passenger_view list" where
  "passenger_list s bid =
     map (\<lambda>(bp, p). \<lparr>pv_passenger = p, pv_seat_number = bp_seat_number bp,
                      pv_booking_passenger_id = bp_id bp\<rparr>)
         (sort_key (\<lambda>(bp, p). (lower (p_last_name p), lower (p_first_name p)))
                   (booking_passenger_rows s bid))"

text \<open>
  \<open>Math.ceil(hoursUntilDeparture - 24)\<close> from the milliseconds until departure.
\<close>

definition hours_until_open :: "int \<Rightarrow> int" where
  "hours_until_open ms = - ((- (ms - 24 * 3600000)) div 3600000)"

text \<open>
  \<open>now\<close> is the clock reading of the request. \<open>hoursUntilDeparture < 0\<close> and
  \<open>hoursUntilDeparture > 24\<close> are compared on the milliseconds.
\<close>

definition checkin_search ::
  "nat \<Rightarrow> int \<Rightarrow> fault \<Rightarrow> search_request \<Rightarrow> store \<Rightarrow> response \<times> store" where
  "checkin_search uid now flt req s =
     (let booking_reference = trim (sr_booking_reference req);
          last_name = trim (sr_last_name req)
      in if \<not> (valid_reference booking_reference \<and> valid_last_name last_name)
         then (reply 400 False MsgValidationFailed, s)
         else if throws flt 0 then (reply 500 False MsgSearchFailed, s)
         else (case bookings_by_reference s booking_reference of
                 [] \<Rightarrow> (reply 404 False MsgBookingRefNotFound, s)
               | (booking, f) # _ \<Rightarrow>
                   if uid \<noteq> b_user_id booking then (reply 403 False MsgAccessDenied, s)
                   else if b_status booking \<noteq> ''confirmed''
                   then (reply 400 False (MsgCannotBeCheckedIn (b_status booking)), s)
                   else if throws flt 1 then (reply 500 False MsgSearchFailed, s)
                   else (case passenger_match s (b_id booking) last_name of
                           None \<Rightarrow> (reply 404 False MsgLastNameMismatch, s)
                         | Some passengerMatch \<Rightarrow>
                             if throws flt 2 then (reply 500 False MsgSearchFailed, s)
                             else if (case first_row (check_ins_of s (b_id booking)) of
                                        None \<Rightarrow> False
                                      | Some existingCheckIn \<Rightarrow> ci_status existingCheckIn = ''completed'')
                             then (reply_data 400 False MsgAlreadyCheckedIn
                                     (CheckinData booking None True), s)
                             else if f_departure f - now < 0 then
                               (if throws flt 3 then (reply 500 False MsgSearchFailed, s)
                                else (case first_row (check_ins_of s (b_id booking)) of
                                        None \<Rightarrow>
                                          if throws flt 4 then (reply 500 False MsgSearchFailed, s)
                                          else (case update_booking_status (b_id booking)
                                                       ''missed'' None s of
                                                  None \<Rightarrow> (reply 500 False MsgSearchFailed, s)
                                                | Some s' \<Rightarrow>
                                                    (reply 400 False MsgDepartedMissedIfNotCheckedIn, s'))
                                      | Some existingCheckInAfter \<Rightarrow>
                                          (reply 400 False MsgDepartedMissedIfNotCheckedIn, s)))
                             else if f_departure f - now > 24 * 3600000
                             then (reply 400 False
                                     (MsgCheckInOpensIn (hours_until_open (f_departure f - now))), s)
                             else if throws flt 3 then (reply 500 False MsgSearchFailed, s)
                             else (reply_data 200 True MsgNone
                                     (CheckinData booking
                                        (Some (passenger_list s (b_id booking))) False), s))))"

subsection \<open>POST /confirm\<close>

record confirm_request =
  cf_booking_id :: "nat option"
  cf_seat_numbers :: "string list"
  cf_gate_number :: "string option"

text \<open>
  \<open>booking_id\<close> is \<open>None\<close> when the field is missing or not an integer; a seat list
  that is missing or not an array of strings is the empty list.
\<close>

definition valid_confirm :: "confirm_request \<Rightarrow> bool" where
  "valid_confirm req =
     ((case cf_booking_id req of None \<Rightarrow> False | Some n \<Rightarrow> 1 \<le> n) \<and>
      1 \<le> length (cf_seat_numbers req) \<and>
      list_all (\<lambda>seat. length (trim seat) \<noteq> 0) (cf_seat_numbers req) \<and>
      (case cf_gate_number req of None \<Rightarrow> True | Some g \<Rightarrow> length (trim g) \<le> 10))"

text \<open>\<open>gate_number || 'TBA'\<close> on the trimmed gate.\<close>

definition gate_or_tba :: "string option \<Rightarrow> string" where
  "gate_or_tba g = (case or_null (map_option trim g) of None \<Rightarrow> ''TBA'' | Some v \<Rightarrow> v)"

text \<open>\<open>SELECT * FROM bookings WHERE booking_id = ? AND user_id = ? AND status = 'confirmed'\<close>\<close>

definition own_confirmed_bookings :: "store \<Rightarrow> nat \<Rightarrow> nat \<Rightarrow> booking_row list" where
  "own_confirmed_bookings s bid uid =
     filter (\<lambda>b. b_id b = bid \<and> b_user_id b = uid \<and> b_status b = ''confirmed'') (bookings s)"

text \<open>\<open>SELECT booking_passenger_id FROM booking_passengers WHERE booking_id = ? ORDER BY booking_passenger_id\<close>\<close>

definition passenger_links :: "store \<Rightarrow> nat \<Rightarrow> nat list" where
  "passenger_links s bid =
     sort (map bp_id (filter (\<lambda>bp. bp_booking_id bp = bid) (booking_passengers s)))"

text \<open>The rows of \<open>booking_passengers\<close> with id \<open>bpid\<close> given the seat \<open>seat\<close>.\<close>

definition write_seat :: "nat \<Rightarrow> string \<Rightarrow> store \<Rightarrow> store" where
  "write_seat bpid seat s =
     s\<lparr>booking_passengers :=
         map (\<lambda>bp. if bp_id bp = bpid then bp\<lparr>bp_seat_number := Some seat\<rparr> else bp)
             (booking_passengers s)\<rparr>"

text \<open>
  \<open>UPDATE booking_passengers SET seat_number = ? WHERE booking_passenger_id = ?\<close>. The
  seat number is VARCHAR(10): the statement fails (\<open>None\<close>) when a row is to be written
  and the string does not fit. With no row of that id nothing is stored and nothing fails.
\<close>

definition set_seat :: "nat \<Rightarrow> string \<Rightarrow> store \<Rightarrow> store option" where
  "set_seat bpid seat s =
     (if \<not> list_ex (\<lambda>bp. bp_id bp = bpid) (booking_passengers s) then Some s
      else case varchar 10 seat of
             None \<Rightarrow> None
           | Some seat_number \<Rightarrow> Some (write_seat bpid seat_number s))"

text \<open>
  The seat loop, \<open>for (i = 0; i < passengerRows.length && i < seat_numbers.length; i++)\<close>,
  over the pairs of a link id and its seat string; \<open>k\<close> numbers the database calls.
\<close>

fun assign_seats :: "fault \<Rightarrow> nat \<Rightarrow> (nat \<times> string) list \<Rightarrow> store \<Rightarrow> (nat \<times> store) option" where
  "assign_seats flt k [] s = Some (k, s)"
| "assign_seats flt k ((bpid, seat) # rest) s =
     (if throws flt k then None
      else (case set_seat bpid (toUpperCase (trim seat)) s of
              None \<Rightarrow> None
            | Some s1 \<Rightarrow> assign_seats flt (Suc k) rest s1))"

text \<open>The store with a completed check-in row for booking \<open>bid\<close> appended.\<close>

definition add_check_in :: "nat \<Rightarrow> int \<Rightarrow> string \<Rightarrow> int \<Rightarrow> store \<Rightarrow> store" where
  "add_check_in bid now gate boardingTime s =
     s\<lparr>check_ins := check_ins s @
          [\<lparr>ci_id = next_id (map ci_id (check_ins s)), ci_booking_id = bid, ci_datetime = now,
            ci_gate_number = gate, ci_boarding_time = boardingTime, ci_status = ''completed''\<rparr>]\<rparr>"

text \<open>
  \<open>INSERT INTO check_ins ... VALUES (?, NOW(), ?, ?, 'completed')\<close>: the booking id is
  unique in the table and the gate number is VARCHAR(10).
\<close>

definition insert_check_in :: "nat \<Rightarrow> int \<Rightarrow> string \<Rightarrow> int \<Rightarrow> store \<Rightarrow> store option" where
  "insert_check_in bid now gate boardingTime s =
     (if list_ex (\<lambda>c. ci_booking_id c = bid) (check_ins s) then None
      else case varchar 10 gate of
             None \<Rightarrow> None
           | Some gate_number \<Rightarrow> Some (add_check_in bid now gate_number boardingTime s))"

text \<open>
  The writes of an open check-in: the boarding time, the passenger links in id order, the
  count check, the check-in row and the seat loop, then the commit. The calls before it
  are numbered 0 to 3.
\<close>

definition write_check_in ::
  "int \<Rightarrow> fault \<Rightarrow> confirm_request \<Rightarrow> nat \<Rightarrow> flight_row \<Rightarrow> store \<Rightarrow> response \<times> store" where
  "write_check_in now flt req bookingId f s =
     (let boardingTime = f_departure f - 30 * 60 * 1000;
          seat_numbers = cf_seat_numbers req
      in if throws flt 4 then (reply 500 False MsgConfirmFailed, s)
         else
           let passengerRows = passenger_links s bookingId
           in if length passengerRows \<noteq> length seat_numbers
              then (reply 400 False
                      (MsgSeatCountMismatch (length seat_numbers) (length passengerRows)), s)
              else if throws flt 5 then (reply 500 False MsgConfirmFailed, s)
              else
                (case insert_check_in bookingId now (gate_or_tba (cf_gate_number req))
                        boardingTime s of
                   None \<Rightarrow> (reply 500 False MsgConfirmFailed, s)
                 | Some s1 \<Rightarrow>
                     (case assign_seats flt 6 (zip passengerRows seat_numbers) s1 of
                        None \<Rightarrow> (reply 500 False MsgConfirmFailed, s)
                      | Some (k, s') \<Rightarrow>
                          if throws flt k then (reply 500 False MsgConfirmFailed, s)
                          else (reply_data 200 True MsgCheckInConfirmed
                                  (ConfirmData bookingId (gate_or_tba (cf_gate_number req))
                                     boardingTime), s'))))"

definition checkin_confirm ::
  "nat \<Rightarrow> int \<Rightarrow> fault \<Rightarrow> confirm_request \<Rightarrow> store \<Rightarrow> response \<times> store" where
  "checkin_confirm uid now flt req s =
     (if \<not> valid_confirm req then (reply 400 False MsgValidationFailed, s)
      else if throws flt 0 then (reply 500 False MsgConfirmFailed, s)
      else case cf_booking_id req of
        None \<Rightarrow> (reply 400 False MsgValidationFailed, s)
      | Some bookingId \<Rightarrow>
          if throws flt 1 then (reply 500 False MsgConfirmFailed, s)
          else (case own_confirmed_bookings s bookingId uid of
                  [] \<Rightarrow> (reply 404 False MsgBookingNotFoundOrCannotCheckIn, s)
                | bookingData # _ \<Rightarrow>
                    if throws flt 2 then (reply 500 False MsgConfirmFailed, s)
                    else if check_ins_of s bookingId \<noteq> []
                    then (reply 400 False MsgAlreadyCheckedIn, s)
                    else if throws flt 3 then (reply 500 False MsgConfirmFailed, s)
                    else (case filter (\<lambda>f. f_id f = b_flight_id bookingData) (flights s) of
                            [] \<Rightarrow> (reply 404 False MsgFlightNotFound, s)
                          | f # _ \<Rightarrow>
                              if f_departure f - now < 0 then
                                (if throws flt 4 then (reply 500 False MsgConfirmFailed, s)
                                 else (case update_booking_status bookingId ''missed'' None s of
                                         None \<Rightarrow> (reply 500 False MsgConfirmFailed, s)
                                       | Some s' \<Rightarrow>
                                           if throws flt 5
                                           then (reply 500 False MsgConfirmFailed, s)
                                           else (reply 400 False MsgDepartedMarkedMissed, s')))
                              else if f_departure f - now > 24 * 3600000
                              then (reply 400 False MsgCheckInOpens24h, s)
                              else write_check_in now flt req bookingId f s)))"

section \<open>Flight search (routes/flights.js)\<close>

record search_query =
  q_from :: "string option"
  q_to :: "string option"
  q_departure :: "int option"
  q_passengers :: "js_number option"
  q_class :: "string option"

text \<open>
  \<open>q_departure\<close> is the requested day and \<open>DATE(f.departure_datetime)\<close> the day of a
  timestamp; \<open>q_passengers\<close> is what \<open>parseInt\<close> makes of the parameter, absent when
  the parameter is (the default is 1). The airport codes are compared as SQL strings.
\<close>

definition date_of :: "int \<Rightarrow> int" where
  "date_of ms = ms div 86400000"

definition matches_query :: "search_query \<Rightarrow> flight_row \<Rightarrow> bool" where
  "matches_query q f =
     (bookable f \<and>
      (case or_null (q_from q) of None \<Rightarrow> True | Some c \<Rightarrow> sql_eq (f_from f) c) \<and>
      (case or_null (q_to q) of None \<Rightarrow> True | Some c \<Rightarrow> sql_eq (f_to f) c) \<and>
      (case q_departure q of None \<Rightarrow> True | Some d \<Rightarrow> date_of (f_departure f) = d))"

text \<open>
  The main query: flights joined with their aircraft (the airports a flight names exist by
  foreign key), \<open>ORDER BY f.departure_datetime ASC\<close>.
\<close>

definition found_flights :: "store \<Rightarrow> search_query \<Rightarrow> (flight_row \<times> aircraft_row) list" where
  "found_flights s q =
     sort_key (\<lambda>(f, a). f_departure f)
       (concat (map (\<lambda>f. map (\<lambda>a. (f, a)) (filter (\<lambda>a. f_aircraft_id f = ac_id a) (aircraft s)))
                    (filter (matches_query q) (flights s))))"

definition requested_passengers :: "search_query \<Rightarrow> js_number" where
  "requested_passengers q = (case q_passengers q of None \<Rightarrow> Num 1 | Some v \<Rightarrow> v)"

definition requested_class :: "search_query \<Rightarrow> string" where
  "requested_class q = (case q_class q of None \<Rightarrow> ''economy'' | Some c \<Rightarrow> c)"

text \<open>\<open>parseFloat(flight.price) * parseInt(passengers)\<close>, the price in hundredths.\<close>

definition price_times :: "int \<Rightarrow> js_number \<Rightarrow> double" where
  "price_times price n = double_times (double_of_decimal price) (number_of n)"

definition view_flight :: "store \<Rightarrow> search_query \<Rightarrow> flight_row \<times> aircraft_row \<Rightarrow> flight_view" where
  "view_flight s q row =
     (case row of (f, a) \<Rightarrow>
        \<lparr>fv_flight = f, fv_capacity = ac_capacity a,
         fv_price = fare_price (requested_class q) f,
         fv_available_seats = max 0 (ac_capacity a - int (booked_seats s (f_id f))),
         fv_total_price = price_times (fare_price (requested_class q) f) (requested_passengers q)\<rparr>)"

text \<open>The loop over the result rows: one count query per flight, numbered from \<open>k\<close>.\<close>

fun view_flights ::
  "fault \<Rightarrow> nat \<Rightarrow> store \<Rightarrow> search_query \<Rightarrow> (flight_row \<times> aircraft_row) list \<Rightarrow> flight_view list option" where
  "view_flights flt k s q [] = Some []"
| "view_flights flt k s q (row # rows) =
     (if throws flt k then None
      else (case view_flights flt (Suc k) s q rows of
              None \<Rightarrow> None
            | Some vs \<Rightarrow> Some (view_flight s q row # vs)))"

definition search_flights :: "fault \<Rightarrow> search_query \<Rightarrow> store \<Rightarrow> response \<times> store" where
  "search_flights flt q s =
     (if throws flt 0 then (reply 500 False MsgFlightSearchFailed, s)
      else (case view_flights flt 1 s q (found_flights s q) of
              None \<Rightarrow> (reply 500 False MsgFlightSearchFailed, s)
            | Some vs \<Rightarrow> (reply_data 200 True MsgFlightsRetrieved (FlightsData vs), s)))"

section \<open>Admin routes that write flights and bookings\<close>

subsection \<open>PUT /flights/:id\<close>

record flight_update =
  fu_flight_number :: "string option"
  fu_aircraft_id :: "nat option"
  fu_from :: "string option"
  fu_to :: "string option"
  fu_departure :: "int option"
  fu_arrival :: "int option"
  fu_base_price :: "int option"
  fu_business_price :: "int option"
  fu_first_class_price :: "int option"
  fu_status :: "string option"

definition set_opt :: "'a option \<Rightarrow> ('a \<Rightarrow> 'r \<Rightarrow> 'r) \<Rightarrow> 'r \<Rightarrow> 'r" where
  "set_opt v g r = (case v of None \<Rightarrow> r | Some x \<Rightarrow> g x r)"

text \<open>The assignments of the UPDATE statement, given the values to store.\<close>

definition apply_flight_update :: "flight_update \<Rightarrow> flight_row \<Rightarrow> flight_row" where
  "apply_flight_update u f =
     (set_opt (fu_status u) (\<lambda>v r. r\<lparr>f_status := v\<rparr>)
     (set_opt (fu_first_class_price u) (\<lambda>v r. r\<lparr>f_first_class_price := v\<rparr>)
     (set_opt (fu_business_price u) (\<lambda>v r. r\<lparr>f_business_price := v\<rparr>)
     (set_opt (fu_base_price u) (\<lambda>v r. r\<lparr>f_base_price := v\<rparr>)
     (set_opt (fu_arrival u) (\<lambda>v r. r\<lparr>f_arrival := v\<rparr>)
     (set_opt (fu_departure u) (\<lambda>v r. r\<lparr>f_departure := v\<rparr>)
     (set_opt (fu_to u) (\<lambda>v r. r\<lparr>f_to := v\<rparr>)
     (set_opt (fu_from u) (\<lambda>v r. r\<lparr>f_from := v\<rparr>)
     (set_opt (fu_aircraft_id u) (\<lambda>v r. r\<lparr>f_aircraft_id := v\<rparr>)
     (set_opt (fu_flight_number u) (\<lambda>v r. r\<lparr>f_number := v\<rparr>) f))))))))))"

text \<open>
  The fields of the request that are present (truthy strings and ids, prices that are not
  null) as the columns of \<open>flights\<close> store them: the flight number is VARCHAR(20), the
  airport codes are VARCHAR(3), the status is an ENUM column and the prices are
  DECIMAL(10,2); \<open>None\<close> when a value is not accepted by its column.
\<close>

fun stored_opt :: "('a \<Rightarrow> 'a option) \<Rightarrow> 'a option \<Rightarrow> 'a option option" where
  "stored_opt g None = Some None"
| "stored_opt g (Some v) = map_option Some (g v)"

definition stored_price :: "int \<Rightarrow> int option" where
  "stored_price p = (if decimal_10_2 p then Some p else None)"

definition stored_flight_update :: "flight_update \<Rightarrow> flight_update option" where
  "stored_flight_update u =
     (case stored_opt (varchar 20) (or_null (fu_flight_number u)) of
        None \<Rightarrow> None
      | Some flight_number \<Rightarrow>
     (case stored_opt (varchar 3) (or_null (fu_from u)) of
        None \<Rightarrow> None
      | Some from_code \<Rightarrow>
     (case stored_opt (varchar 3) (or_null (fu_to u)) of
        None \<Rightarrow> None
      | Some to_code \<Rightarrow>
     (case stored_opt (enum_store flight_statuses) (or_null (fu_status u)) of
        None \<Rightarrow> None
      | Some status \<Rightarrow>
     (case stored_opt stored_price (fu_base_price u) of
        None \<Rightarrow> None
      | Some base_price \<Rightarrow>
     (case stored_opt stored_price (fu_business_price u) of
        None \<Rightarrow> None
      | Some business_price \<Rightarrow>
     (case stored_opt stored_price (fu_first_class_price u) of
        None \<Rightarrow> None
      | Some first_class_price \<Rightarrow>
          Some (u\<lparr>fu_flight_number := flight_number,
                  fu_aircraft_id := truthy_id (fu_aircraft_id u),
                  fu_from := from_code, fu_to := to_code,
                  fu_status := status, fu_base_price := base_price,
                  fu_business_price := business_price,
                  fu_first_class_price := first_class_price\<rparr>))))))))"

text \<open>
  \<open>UPDATE flights SET ... WHERE flight_id = ?\<close>. The statement fails (\<open>None\<close>) when a
  value is not accepted by its column, when the aircraft id names no aircraft (foreign
  key), or when a written row would not arrive after it departs (the CHECK constraint). The
  airports are not part of the store; an update that names an unknown airport is a failing
  call.
\<close>

definition update_flight :: "nat \<Rightarrow> flight_update \<Rightarrow> store \<Rightarrow> store option" where
  "update_flight fid u s =
     (if \<not> list_ex (\<lambda>f. f_id f = fid) (flights s) then Some s
      else case stored_flight_update u of
             None \<Rightarrow> None
           | Some v \<Rightarrow>
               if (case fu_aircraft_id v of
                     None \<Rightarrow> False
                   | Some aid \<Rightarrow> \<not> list_ex (\<lambda>a. ac_id a = aid) (aircraft s))
               then None
               else if list_ex (\<lambda>f. f_id f = fid \<and>
                                     f_arrival (apply_flight_update v f) \<le>
                                       f_departure (apply_flight_update v f)) (flights s)
               then None
               else Some (s\<lparr>flights := map (\<lambda>f. if f_id f = fid then apply_flight_update v f else f)
                                            (flights s)\<rparr>))"

definition no_fields :: "flight_update \<Rightarrow> bool" where
  "no_fields u =
     (or_null (fu_flight_number u) = None \<and> truthy_id (fu_aircraft_id u) = None \<and>
      or_null (fu_from u) = None \<and> or_null (fu_to u) = None \<and>
      fu_departure u = None \<and> fu_arrival u = None \<and> fu_base_price u = None \<and>
      fu_business_price u = None \<and> fu_first_class_price u = None \<and>
      or_null (fu_status u) = None)"

definition bad_dates :: "flight_update \<Rightarrow> bool" where
  "bad_dates u =
     (case (fu_departure u, fu_arrival u) of
        (Some dep, Some arr) \<Rightarrow> arr \<le> dep
      | _ \<Rightarrow> False)"

definition write_flight :: "fault \<Rightarrow> nat \<Rightarrow> nat \<Rightarrow> flight_update \<Rightarrow> store \<Rightarrow> response \<times> store" where
  "write_flight flt k fid u s =
     (if no_fields u then (reply 400 False MsgNoFieldsToUpdate, s)
      else if bad_dates u then (reply 400 False MsgArrivalAfterDeparture, s)
      else if throws flt k then (reply 500 False MsgUpdateFlightFailed, s)
      else (case update_flight fid u s of
              None \<Rightarrow> (reply 500 False MsgUpdateFlightFailed, s)
            | Some s' \<Rightarrow> (reply 200 True MsgFlightUpdated, s')))"

definition admin_update_flight ::
  "fault \<Rightarrow> nat option \<Rightarrow> flight_update \<Rightarrow> store \<Rightarrow> response \<times> store" where
  "admin_update_flight flt flightId u s =
     (case flightId of
        None \<Rightarrow> (reply 400 False MsgInvalidFlightId, s)
      | Some fid \<Rightarrow>
          if throws flt 0 then (reply 500 False MsgUpdateFlightFailed, s)
          else if filter (\<lambda>f. f_id f = fid) (flights s) = []
          then (reply 404 False MsgFlightNotFound, s)
          else (case or_null (fu_flight_number u) of
                  None \<Rightarrow> write_flight flt 1 fid u s
                | Some flight_number \<Rightarrow>
                    if throws flt 1 then (reply 500 False MsgUpdateFlightFailed, s)
                    else if filter (\<lambda>f. sql_eq (f_number f) flight_number \<and> f_id f \<noteq> fid)
                                   (flights s) \<noteq> []
                    then (reply 409 False MsgFlightNumberExists, s)
                    else write_flight flt 2 fid u s))"

subsection \<open>PUT /bookings/:id/status\<close>

definition valid_admin_status :: "string \<Rightarrow> string option \<Rightarrow> bool" where
  "valid_admin_status status payment_status =
     (status \<in> set [''pending'', ''confirmed'', ''cancelled'', ''completed''] \<and>
      (case payment_status of
         None \<Rightarrow> True
       | Some p \<Rightarrow> p \<in> set [''pending'', ''paid'', ''refunded'']))"

definition admin_update_booking_status ::
  "fault \<Rightarrow> nat option \<Rightarrow> string \<Rightarrow> string option \<Rightarrow> store \<Rightarrow> response \<times> store" where
  "admin_update_booking_status flt bookingId status payment_status s =
     (if \<not> valid_admin_status status payment_status
      then (reply 400 False MsgValidationFailed, s)
      else case bookingId of
        None \<Rightarrow> (reply 400 False MsgInvalidBookingId, s)
      | Some bid \<Rightarrow>
          if throws flt 0 then (reply 500 False MsgUpdateStatusFailed, s)
          else if filter (\<lambda>b. b_id b = bid) (bookings s) = []
          then (reply 404 False MsgBookingNotFound, s)
          else if throws flt 1 then (reply 500 False MsgUpdateStatusFailed, s)
          else (case update_booking_status bid status (or_null payment_status) s of
                  None \<Rightarrow> (reply 500 False MsgUpdateStatusFailed, s)
                | Some s' \<Rightarrow> (reply 200 True MsgStatusUpdated, s')))"

section \<open>The sequential step relation\<close>

text \<open>
  One request at a time: every operation runs to its response before the next starts.
  An operation carries the caller, the clock reading, the generated reference and the
  failing database call of its request.
\<close>

datatype operation =
    CreateBooking nat string fault create_request
  | CancelBooking nat fault "nat option"
  | UpdateStatus nat fault "nat option" "string option"
  | CheckinSearch nat int fault search_request
  | CheckinConfirm nat int fault confirm_request
  | SearchFlights fault search_query
  | AdminUpdateFlight fault "nat option" flight_update
  | AdminUpdateBookingStatus fault "nat option" string "string option"

fun perform :: "operation \<Rightarrow> store \<Rightarrow> response \<times> store" where
  "perform (CreateBooking uid ref flt req) s = create_booking uid ref flt req s"
| "perform (CancelBooking uid flt bid) s = cancel_booking uid flt bid s"
| "perform (UpdateStatus uid flt bid st) s = update_status uid flt bid st s"
| "perform (CheckinSearch uid now flt req) s = checkin_search uid now flt req s"
| "perform (CheckinConfirm uid now flt req) s = checkin_confirm uid now flt req s"
| "perform (SearchFlights flt q) s = search_flights flt q s"
| "perform (AdminUpdateFlight flt fid u) s = admin_update_flight flt fid u s"
| "perform (AdminUpdateBookingStatus flt bid st pst) s = admin_update_booking_status flt bid st pst s"

fun run :: "operation list \<Rightarrow> store \<Rightarrow> store" where
  "run [] s = s"
| "run (op # ops) s = run ops (snd (perform op s))"

section \<open>Invariants and the ledger operations\<close>

text \<open>The primary and foreign keys the handlers rely on.\<close>

definition keys_ok :: "store \<Rightarrow> bool" where
  "keys_ok s =
     (distinct (map b_id (bookings s)) \<and> distinct (map f_id (flights s)) \<and>
      distinct (map ac_id (aircraft s)) \<and>
      (\<forall>bp \<in> set (booking_passengers s). bp_booking_id bp \<in> set (map b_id (bookings s))))"

text \<open>
  The capacity invariant: on every flight, the passengers of the bookings that are not
  cancelled (counted as the capacity check of POST /create counts them) do not exceed
  the capacity of the flight's aircraft.
\<close>

definition capacity_respected :: "store \<Rightarrow> bool" where
  "capacity_respected s =
     (\<forall>f \<in> set (flights s). \<forall>a \<in> set (aircraft s).
        f_aircraft_id f = ac_id a \<longrightarrow> int (booked_seats s (f_id f)) \<le> ac_capacity a)"


text \<open>
  The user-facing operations of the ledger, a status update counting only when it does
  not take a cancelled booking to another status.
\<close>

fun ledger_step :: "store \<Rightarrow> operation \<Rightarrow> bool" where
  "ledger_step s (UpdateStatus uid flt bid st) =
     (st = Some ''cancelled'' \<or>
      (\<forall>b \<in> set (bookings s). Some (b_id b) = bid \<longrightarrow> b_status b \<noteq> ''cancelled''))"
| "ledger_step s (AdminUpdateFlight flt fid u) = False"
| "ledger_step s (AdminUpdateBookingStatus flt bid st pst) = False"
| "ledger_step s op = True"

fun ledger_run :: "operation list \<Rightarrow> store \<Rightarrow> bool" where
  "ledger_run [] s = True"
| "ledger_run (op # ops) s = (ledger_step s op \<and> ledger_run ops (snd (perform op s)))"

section \<open>Example data\<close>

text \<open>One aircraft with a single seat and one scheduled flight on it.\<close>

definition demo_flight :: flight_row where
  "demo_flight =
     \<lparr>f_id = 1, f_number = ''SW101'', f_aircraft_id = 1, f_from = ''NYC'', f_to = ''LAX'',
      f_departure = 100000000, f_arrival = 120000000, f_status = ''scheduled'',
      f_base_price = 10000, f_business_price = 25000, f_first_class_price = 50000\<rparr>"

definition demo_store :: store where
  "demo_store =
     \<lparr>aircraft = [\<lparr>ac_id = 1, ac_capacity = 1\<rparr>], flights = [demo_flight],
      bookings = [], passengers = [], booking_passengers = [], check_ins = []\<rparr>"

definition demo_passenger :: passenger_input where
  "demo_passenger =
     \<lparr>pi_passenger_id = None, pi_first_name = ''Ann'', pi_last_name = ''Lee'',
      pi_date_of_birth = None, pi_passport_number = None, pi_nationality = None,
      pi_save = False, pi_seat_number = None\<rparr>"

definition demo_request :: create_request where
  "demo_request = \<lparr>cr_flight_id = Some 1, cr_passengers = [demo_passenger], cr_class = None\<rparr>"

definition demo_booking :: booking_row where
  "demo_booking =
     \<lparr>b_id = 1, b_reference = ''BKA12'', b_user_id = 7, b_flight_id = 1, b_passengers = 1,
      b_class = ''economy'', b_total_amount = 10000, b_status = ''confirmed'',
      b_payment_status = ''paid''\<rparr>"

definition demo_traveller :: passenger_row where
  "demo_traveller =
     \<lparr>p_id = 1, p_user_id = Some 7, p_first_name = ''Ann'', p_last_name = ''Lee'',
      p_date_of_birth = None, p_passport_number = None, p_nationality = None,
      p_saved = False\<rparr>"

text \<open>The store after user 7 has booked the seat for one new passenger.\<close>

definition booked_store :: store where
  "booked_store =
     demo_store\<lparr>bookings := [demo_booking], passengers := [demo_traveller],
       booking_passengers :=
         [\<lparr>bp_id = 1, bp_booking_id = 1, bp_passenger_id = 1, bp_seat_number = None\<rparr>]\<rparr>"

text \<open>The same store after a completed check-in.\<close>

definition checked_in_store :: store where
  "checked_in_store =
     booked_store\<lparr>check_ins :=
       [\<lparr>ci_id = 1, ci_booking_id = 1, ci_datetime = 99000000, ci_gate_number = ''TBA'',
         ci_boarding_time = 98200000, ci_status = ''completed''\<rparr>]\<rparr>"

text \<open>
  Book the seat, cancel the booking, book the seat again for another user, then set the
  cancelled booking to \<open>completed\<close>.
\<close>

definition overbooking_ops :: "operation list" where
  "overbooking_ops =
     [CreateBooking 7 ''BKA12'' None demo_request,
      CancelBooking 7 None (Some 1),
      CreateBooking 8 ''BKB34'' None demo_request,
      UpdateStatus 7 None (Some 1) (Some ''completed'')]"

definition overbooked_store :: store where
  "overbooked_store =
     demo_store\<lparr>bookings :=
         [demo_booking\<lparr>b_status := ''completed'', b_payment_status := ''refunded''\<rparr>,
          demo_booking\<lparr>b_id := 2, b_reference := ''BKB34'', b_user_id := 8\<rparr>],
       passengers := [demo_traveller, demo_traveller\<lparr>p_id := 2, p_user_id := Some 8\<rparr>],
       booking_passengers :=
         [\<lparr>bp_id = 1, bp_booking_id = 1, bp_passenger_id = 1, bp_seat_number = None\<rparr>,
          \<lparr>bp_id = 2, bp_booking_id = 2, bp_passenger_id = 2, bp_seat_number = None\<rparr>]\<rparr>"

text \<open>The first three operations: the seat is booked, released and booked again.\<close>

definition rebooking_ops :: "operation list" where
  "rebooking_ops =
     [CreateBooking 7 ''BKA12'' None demo_request,
      CancelBooking 7 None (Some 1),
      CreateBooking 8 ''BKB34'' None demo_request]"

section \<open>Notions used in the statements\<close>

text \<open>The seat updates of a list of link ids and seat strings, in order.\<close>

definition seat_writes :: "(nat \<times> string) list \<Rightarrow> store \<Rightarrow> store" where
  "seat_writes ps s = fold (\<lambda>(bpid, seat). write_seat bpid (toUpperCase (trim seat))) ps s"

text \<open>The descriptors that make POST /create insert a passenger row.\<close>

definition without_id :: "passenger_input list \<Rightarrow> passenger_input list" where
  "without_id ds = filter (\<lambda>d. truthy_id (pi_passenger_id d) = None) ds"

text \<open>
  \<open>s'\<close> is \<open>s\<close> with the whole booking of request \<open>req\<close> added: one booking row for a
  bookable flight with enough free seats, with the class as the ENUM column stores it,
  priced at the fare of the requested class times the number of descriptors, one link per
  descriptor, one new passenger row per descriptor without a passenger id, and nothing else
  changed.
\<close>

definition booking_added :: "nat \<Rightarrow> string \<Rightarrow> create_request \<Rightarrow> store \<Rightarrow> store \<Rightarrow> bool" where
  "booking_added uid ref req s s' =
     (\<exists>fid f a rest links travellers reference stored_class.
        truthy_id (cr_flight_id req) = Some fid \<and>
        bookable_flights s fid = (f, a) # rest \<and>
        cr_passengers req \<noteq> [] \<and>
        int (length (cr_passengers req)) \<le> ac_capacity a - int (booked_seats s fid) \<and>
        varchar 20 ref = Some reference \<and>
        enum_store fare_classes (case cr_class req of None \<Rightarrow> ''economy'' | Some c \<Rightarrow> c) = Some stored_class \<and>
        bookings s' = bookings s @
          [new_booking (next_id (map b_id (bookings s))) reference uid fid
             (length (cr_passengers req)) stored_class
             (fare_price (case cr_class req of None \<Rightarrow> ''economy'' | Some c \<Rightarrow> c) f * int (length (cr_passengers req)))] \<and>
        booking_passengers s' = booking_passengers s @ links \<and>
        length links = length (cr_passengers req) \<and>
        (\<forall>bp \<in> set links. bp_booking_id bp = next_id (map b_id (bookings s))) \<and>
        passengers s' = passengers s @ travellers \<and>
        length travellers = length (without_id (cr_passengers req)) \<and>
        flights s' = flights s \<and> aircraft s' = aircraft s \<and> check_ins s' = check_ins s)"



section \<open>Columns and collation\<close>

lemma sql_eq_lower: "lower a = lower b \<Longrightarrow> sql_eq a b"
  by (simp add: sql_eq_def collate_def)

lemma varchar_fits: "length v \<le> n \<Longrightarrow> varchar n v = Some v"
  by (simp add: varchar_def)

lemma enum_cancelled: "enum_store booking_statuses ''cancelled'' = Some ''cancelled''"
  by code_simp

lemma enum_completed: "enum_store booking_statuses ''completed'' = Some ''completed''"
  by code_simp

lemma enum_missed: "enum_store booking_statuses ''missed'' = None"
  by code_simp

lemma enum_refunded: "enum_store payment_statuses ''refunded'' = Some ''refunded''"
  by code_simp

lemma map_if_none: "\<not> list_ex P xs \<Longrightarrow> map (\<lambda>x. if P x then g x else x) xs = xs"
  by (induction xs) simp_all

lemma update_bookings_absent:
  "\<not> list_ex (\<lambda>b. b_id b = bid) (bookings s) \<Longrightarrow> update_bookings bid g s = s"
  by (simp add: update_bookings_def map_if_none)

lemma update_booking_status_stored:
  assumes "enum_store booking_statuses st = Some st'"
  shows "update_booking_status bid st None s =
         Some (update_bookings bid (\<lambda>b. b\<lparr>b_status := st'\<rparr>) s)"
  using assms by (simp add: update_booking_status_def update_bookings_absent)

lemma update_booking_status_paid:
  assumes "enum_store booking_statuses st = Some st'"
    and "enum_store payment_statuses p = Some p'"
  shows "update_booking_status bid st (Some p) s =
         Some (update_bookings bid (\<lambda>b. b\<lparr>b_status := st', b_payment_status := p'\<rparr>) s)"
  using assms by (simp add: update_booking_status_def update_bookings_absent)

lemma update_booking_status_rejected:
  assumes "enum_store booking_statuses st = None"
  shows "update_booking_status bid st p s =
         (if list_ex (\<lambda>b. b_id b = bid) (bookings s) then None else Some s)"
  using assms by (simp add: update_booking_status_def)

lemma cancel_write:
  "update_booking_status bid ''cancelled'' (Some ''refunded'') s =
   Some (update_bookings bid (\<lambda>b. b\<lparr>b_status := ''cancelled'', b_payment_status := ''refunded''\<rparr>) s)"
  by (rule update_booking_status_paid[OF enum_cancelled enum_refunded])

section \<open>Cancel Booking\<close>

lemma in_map_if:
  "y \<in> set (map (\<lambda>x. if P x then g x else x) xs) \<longleftrightarrow> (\<exists>x \<in> set xs. y = (if P x then g x else x))"
  by (induction xs) auto

lemma in_update_bookings:
  "b' \<in> set (bookings (update_bookings bid g s)) \<longleftrightarrow>
     (\<exists>b \<in> set (bookings s). b' = (if b_id b = bid then g b else b))"
  unfolding update_bookings_def by (simp add: in_map_if del: set_map)

lemma filter_map_if_other:
  assumes "\<And>x. k (g x) = k x"
  shows "filter (\<lambda>b. k b \<noteq> i) (map (\<lambda>b. if k b = i then g b else b) xs) = filter (\<lambda>b. k b \<noteq> i) xs"
  by (induction xs) (simp_all add: assms)

lemma filter_map_if_same:
  assumes "\<And>x. Q (g x) = Q x"
  shows "filter Q (map (\<lambda>b. if P b then g b else b) xs) = map (\<lambda>b. if P b then g b else b) (filter Q xs)"
  by (induction xs) (simp_all add: assms)

lemma own_bookings_update:
  assumes "\<And>b. b_id (g b) = b_id b" "\<And>b. b_user_id (g b) = b_user_id b"
  shows "own_bookings (update_bookings bid g s) bid' uid =
         map (\<lambda>b. if b_id b = bid then g b else b) (own_bookings s bid' uid)"
  unfolding own_bookings_def update_bookings_def
  by (simp add: filter_map_if_same assms)

lemma cancel_booking_found:
  assumes "own_bookings s bid uid = b # rest" "b_status b \<noteq> ''cancelled''" "b_status b \<noteq> ''completed''"
  shows "cancel_booking uid None (Some bid) s =
     (reply 200 True MsgBookingCancelled,
      update_bookings bid (\<lambda>b. b\<lparr>b_status := ''cancelled'', b_payment_status := ''refunded''\<rparr>) s)"
  using assms by (simp add: cancel_booking_def throws_def cancel_write)

lemma cancel_booking_atomic:
  "snd (cancel_booking uid flt (Some bid) s) = s \<or>
   snd (cancel_booking uid flt (Some bid) s) = snd (cancel_booking uid None (Some bid) s)"
  by (cases "own_bookings s bid uid") (simp_all add: cancel_booking_def throws_def cancel_write)

text \<open>
  Claim C3 (Cancel Booking). With no failing database call, cancelling booking \<open>bid\<close> as
  user \<open>uid\<close>: answers 404 (NotFound) and changes nothing when no booking with that id
  belongs to the caller; answers 400 (InvalidState) and changes nothing when the booking is
  already cancelled or completed; otherwise answers 200, every row with that id has status
  \<open>cancelled\<close> and payment status \<open>refunded\<close>, the other bookings are untouched, and a
  second cancellation answers 400 "already cancelled" and leaves that store as it is.
  Whatever database call fails, the store is the old one or the fully updated one.
\<close>

theorem cancel_booking_contract:
  "(own_bookings s bid uid = [] \<longrightarrow>
      cancel_booking uid None (Some bid) s = (reply 404 False MsgBookingNotFound, s)) \<and>
   (\<forall>b. first_row (own_bookings s bid uid) = Some b \<and>
        (b_status b = ''cancelled'' \<or> b_status b = ''completed'') \<longrightarrow>
        r_code (fst (cancel_booking uid None (Some bid) s)) = 400 \<and>
        \<not> r_success (fst (cancel_booking uid None (Some bid) s)) \<and>
        snd (cancel_booking uid None (Some bid) s) = s) \<and>
   (\<forall>b. first_row (own_bookings s bid uid) = Some b \<and>
        b_status b \<noteq> ''cancelled'' \<and> b_status b \<noteq> ''completed'' \<longrightarrow>
        fst (cancel_booking uid None (Some bid) s) = reply 200 True MsgBookingCancelled \<and>
        (\<forall>b' \<in> set (bookings (snd (cancel_booking uid None (Some bid) s))).
           b_id b' = bid \<longrightarrow> b_status b' = ''cancelled'' \<and> b_payment_status b' = ''refunded'') \<and>
        filter (\<lambda>b'. b_id b' \<noteq> bid) (bookings (snd (cancel_booking uid None (Some bid) s))) =
          filter (\<lambda>b'. b_id b' \<noteq> bid) (bookings s) \<and>
        cancel_booking uid None (Some bid) (snd (cancel_booking uid None (Some bid) s)) =
          (reply 400 False MsgAlreadyCancelled, snd (cancel_booking uid None (Some bid) s))) \<and>
   (\<forall>flt. snd (cancel_booking uid flt (Some bid) s) = s \<or>
          snd (cancel_booking uid flt (Some bid) s) = snd (cancel_booking uid None (Some bid) s))"
proof (intro conjI allI impI)
  assume "own_bookings s bid uid = []"
  then show "cancel_booking uid None (Some bid) s = (reply 404 False MsgBookingNotFound, s)"
    by (simp add: cancel_booking_def throws_def)
next
  fix b
  assume a: "first_row (own_bookings s bid uid) = Some b \<and>
        (b_status b = ''cancelled'' \<or> b_status b = ''completed'')"
  then obtain rest where o: "own_bookings s bid uid = b # rest"
    by (cases "own_bookings s bid uid") auto
  from a have "b_status b = ''cancelled'' \<or> b_status b = ''completed''" by simp
  then have r: "cancel_booking uid None (Some bid) s = (reply 400 False MsgAlreadyCancelled, s) \<or>
                cancel_booking uid None (Some bid) s = (reply 400 False MsgCannotCancelCompleted, s)"
    using o by (auto simp add: cancel_booking_def throws_def)
  from r show "r_code (fst (cancel_booking uid None (Some bid) s)) = 400"
    by (auto simp: reply_def)
  from r show "\<not> r_success (fst (cancel_booking uid None (Some bid) s))"
    by (auto simp: reply_def)
  from r show "snd (cancel_booking uid None (Some bid) s) = s"
    by auto
next
  fix b
  assume a: "first_row (own_bookings s bid uid) = Some b \<and>
        b_status b \<noteq> ''cancelled'' \<and> b_status b \<noteq> ''completed''"
  then obtain rest where o: "own_bookings s bid uid = b # rest"
    by (cases "own_bookings s bid uid") auto
  let ?g = "\<lambda>b. b\<lparr>b_status := ''cancelled'', b_payment_status := ''refunded''\<rparr>"
  from a o have r: "cancel_booking uid None (Some bid) s =
      (reply 200 True MsgBookingCancelled, update_bookings bid ?g s)"
    by (simp add: cancel_booking_found)
  show "fst (cancel_booking uid None (Some bid) s) = reply 200 True MsgBookingCancelled"
    by (simp add: r)
  show "\<forall>b' \<in> set (bookings (snd (cancel_booking uid None (Some bid) s))).
           b_id b' = bid \<longrightarrow> b_status b' = ''cancelled'' \<and> b_payment_status b' = ''refunded''"
  proof (intro ballI impI)
    fix b' assume "b' \<in> set (bookings (snd (cancel_booking uid None (Some bid) s)))" and i: "b_id b' = bid"
    then obtain x where x: "b' = (if b_id x = bid then ?g x else x)"
      unfolding r snd_conv in_update_bookings by blast
    show "b_status b' = ''cancelled'' \<and> b_payment_status b' = ''refunded''"
      using x i by (cases "b_id x = bid") simp_all
  qed
  show "filter (\<lambda>b'. b_id b' \<noteq> bid) (bookings (snd (cancel_booking uid None (Some bid) s))) =
          filter (\<lambda>b'. b_id b' \<noteq> bid) (bookings s)"
    unfolding r snd_conv update_bookings_def by (simp add: filter_map_if_other)
  have "b \<in> set (own_bookings s bid uid)" by (simp add: o)
  then have bb: "b_id b = bid" by (simp add: own_bookings_def)
  have "own_bookings (update_bookings bid ?g s) bid uid =
        ?g b # map (\<lambda>b. if b_id b = bid then ?g b else b) rest"
    by (simp add: own_bookings_update o bb)
  then have "cancel_booking uid None (Some bid) (update_bookings bid ?g s) =
          (reply 400 False MsgAlreadyCancelled, update_bookings bid ?g s)"
    by (simp add: cancel_booking_def throws_def)
  then show "cancel_booking uid None (Some bid) (snd (cancel_booking uid None (Some bid) s)) =
          (reply 400 False MsgAlreadyCancelled, snd (cancel_booking uid None (Some bid) s))"
    by (simp add: r)
next
  fix flt
  show "snd (cancel_booking uid flt (Some bid) s) = s \<or>
          snd (cancel_booking uid flt (Some bid) s) = snd (cancel_booking uid None (Some bid) s)"
    by (rule cancel_booking_atomic)
qed

theorem cancel_booking_contract_witness:
  "fst (cancel_booking 7 None (Some 1) booked_store) = reply 200 True MsgBookingCancelled \<and>
   cancel_booking 7 None (Some 1) (snd (cancel_booking 7 None (Some 1) booked_store)) =
     (reply 400 False MsgAlreadyCancelled, snd (cancel_booking 7 None (Some 1) booked_store)) \<and>
   cancel_booking 8 None (Some 1) booked_store = (reply 404 False MsgBookingNotFound, booked_store) \<and>
   r_code (fst (cancel_booking 7 None (Some 1)
                  (booked_store\<lparr>bookings := [demo_booking\<lparr>b_status := ''completed''\<rparr>]\<rparr>))) = 400"
proof -
  have h1: "first_row (own_bookings booked_store 1 7) = Some demo_booking \<and>
        b_status demo_booking \<noteq> ''cancelled'' \<and> b_status demo_booking \<noteq> ''completed''"
    by code_simp
  have h2: "own_bookings booked_store 1 8 = []"
    by code_simp
  have h3: "first_row (own_bookings (booked_store\<lparr>bookings := [demo_booking\<lparr>b_status := ''completed''\<rparr>]\<rparr>) 1 7)
               = Some (demo_booking\<lparr>b_status := ''completed''\<rparr>) \<and>
             (b_status (demo_booking\<lparr>b_status := ''completed''\<rparr>) = ''cancelled'' \<or>
              b_status (demo_booking\<lparr>b_status := ''completed''\<rparr>) = ''completed'')"
    by code_simp
  from cancel_booking_contract[of booked_store 1 7] h1 cancel_booking_contract[of booked_store 1 8] h2
    cancel_booking_contract[of "booked_store\<lparr>bookings := [demo_booking\<lparr>b_status := ''completed''\<rparr>]\<rparr>" 1 7] h3
  show ?thesis by blast
qed


section \<open>Status update by the user\<close>

lemma map_payment_update:
  assumes "\<And>b. b_payment_status (g b) = b_payment_status b"
  shows "map b_payment_status (bookings (update_bookings bid g s)) = map b_payment_status (bookings s)"
  unfolding update_bookings_def by (simp add: assms)

lemma own_bookings_present:
  "own_bookings s bid uid \<noteq> [] \<Longrightarrow> list_ex (\<lambda>b. b_id b = bid) (bookings s)"
  by (auto simp add: own_bookings_def list_ex_iff filter_empty_conv)

lemma update_booking_status_no_payment:
  assumes "update_booking_status bid st None s = Some s'"
  shows "map b_payment_status (bookings s') = map b_payment_status (bookings s)"
proof (cases "list_ex (\<lambda>b. b_id b = bid) (bookings s)")
  case False
  with assms show ?thesis by (simp add: update_booking_status_def)
next
  case True
  with assms obtain st' where "s' = update_bookings bid (\<lambda>b. b\<lparr>b_status := st'\<rparr>) s"
    by (auto simp add: update_booking_status_def split: option.splits)
  then show ?thesis by (simp add: map_payment_update)
qed

lemma status_write_payment:
  "map b_payment_status
     (bookings (snd (case update_booking_status bid st None s of
                       None \<Rightarrow> (r1, s)
                     | Some s' \<Rightarrow> (r2, s')))) =
   map b_payment_status (bookings s)"
proof (cases "update_booking_status bid st None s")
  case None
  then show ?thesis by simp
next
  case (Some s')
  from update_booking_status_no_payment[OF Some] show ?thesis by (simp add: Some)
qed

lemma update_status_payment:
  "map b_payment_status (bookings (snd (update_status uid flt bookingId status s))) =
   map b_payment_status (bookings s)"
proof (cases bookingId)
  case None
  then show ?thesis by (simp add: update_status_def)
next
  case (Some bid)
  show ?thesis
  proof (cases "or_null status")
    case None
    then show ?thesis using Some by (simp add: update_status_def)
  next
    case st: (Some st)
    show ?thesis
      using Some st
      by (cases "first_row (own_bookings s bid uid)")
         (simp_all add: update_status_def status_write_payment)
  qed
qed

lemma update_status_found:
  assumes "st = ''completed'' \<or> st = ''cancelled''"
    and "own_bookings s bid uid \<noteq> []"
  shows "update_status uid None (Some bid) (Some st) s =
         (reply 200 True MsgStatusUpdated, update_bookings bid (\<lambda>b. b\<lparr>b_status := st\<rparr>) s)"
proof -
  obtain b rest where o: "own_bookings s bid uid = b # rest"
    using assms(2) by (cases "own_bookings s bid uid") auto
  have n: "or_null (Some st) = Some st" using assms(1) by auto
  have m: "st \<in> set [''completed'', ''missed'', ''cancelled'']" using assms(1) by auto
  have e: "enum_store booking_statuses st = Some st"
    using assms(1) enum_completed enum_cancelled by auto
  show ?thesis
    unfolding update_status_def using o n m
    by (simp add: throws_def update_booking_status_stored[OF e])
qed

text \<open>
  For a booking of the caller and the status \<open>completed\<close> or \<open>cancelled\<close>, with no failing
  database call, the handler answers 200 and every row with that id has the requested
  status, whatever the status was before; the other bookings are untouched. No call of the
  handler, whatever its parameters, changes a payment status.
\<close>

lemma update_status_sets:
  assumes "st = ''completed'' \<or> st = ''cancelled''"
    and "own_bookings s bid uid \<noteq> []"
  shows "fst (update_status uid None (Some bid) (Some st) s) = reply 200 True MsgStatusUpdated \<and>
     (\<forall>b \<in> set (bookings (snd (update_status uid None (Some bid) (Some st) s))).
        b_id b = bid \<longrightarrow> b_status b = st) \<and>
     filter (\<lambda>b. b_id b \<noteq> bid) (bookings (snd (update_status uid None (Some bid) (Some st) s))) =
       filter (\<lambda>b. b_id b \<noteq> bid) (bookings s)"
proof (intro conjI)
  let ?g = "\<lambda>b. b\<lparr>b_status := st\<rparr>"
  have r: "update_status uid None (Some bid) (Some st) s =
         (reply 200 True MsgStatusUpdated, update_bookings bid ?g s)"
    using assms by (rule update_status_found)
  show "fst (update_status uid None (Some bid) (Some st) s) = reply 200 True MsgStatusUpdated"
    by (simp add: r)
  show "\<forall>b \<in> set (bookings (snd (update_status uid None (Some bid) (Some st) s))).
        b_id b = bid \<longrightarrow> b_status b = st"
  proof (intro ballI impI)
    fix b' assume "b' \<in> set (bookings (snd (update_status uid None (Some bid) (Some st) s)))"
      and i: "b_id b' = bid"
    then obtain x where x: "b' = (if b_id x = bid then ?g x else x)"
      unfolding r snd_conv in_update_bookings by blast
    show "b_status b' = st"
      using x i by (cases "b_id x = bid") simp_all
  qed
  show "filter (\<lambda>b. b_id b \<noteq> bid) (bookings (snd (update_status uid None (Some bid) (Some st) s))) =
       filter (\<lambda>b. b_id b \<noteq> bid) (bookings s)"
    unfolding r snd_conv update_bookings_def by (simp add: filter_map_if_other)
qed

text \<open>
  The status \<open>missed\<close> passes the handler's own check but is no member of the ENUM column
  \<open>bookings.status\<close>: for a booking of the caller the UPDATE fails, whatever else fails,
  and the handler answers 500 with the store unchanged.
\<close>

lemma update_status_missed:
  assumes "own_bookings s bid uid \<noteq> []"
  shows "update_status uid flt (Some bid) (Some ''missed'') s =
         (reply 500 False MsgUpdateStatusFailed, s)"
proof -
  obtain b rest where o: "own_bookings s bid uid = b # rest"
    using assms by (cases "own_bookings s bid uid") auto
  have w: "update_booking_status bid ''missed'' None s = None"
    using own_bookings_present[OF assms] by (simp add: update_booking_status_rejected[OF enum_missed])
  show ?thesis
    unfolding update_status_def using o w by (simp add: throws_def)
qed

text \<open>
  Claim C10 (update-status) at its failing input: user 7 asks for the status \<open>missed\<close> on
  the own confirmed booking 1. The handler accepts the status, the UPDATE is rejected by
  the ENUM column, and the answer is 500 "Failed to update booking status" with the booking
  still \<open>confirmed\<close>. The statuses \<open>completed\<close> and \<open>cancelled\<close> are written with
  answer 200 on the same booking, and on a booking that is already cancelled; the payment
  status stays \<open>paid\<close> or \<open>refunded\<close> as it was.
\<close>

theorem update_status_missed_rejected:
  "own_bookings booked_store 1 7 = [demo_booking] \<and>
   update_status 7 None (Some 1) (Some ''missed'') booked_store =
     (reply 500 False MsgUpdateStatusFailed, booked_store) \<and>
   update_status 7 None (Some 1) (Some ''completed'') booked_store =
     (reply 200 True MsgStatusUpdated,
      booked_store\<lparr>bookings := [demo_booking\<lparr>b_status := ''completed''\<rparr>]\<rparr>) \<and>
   update_status 7 None (Some 1) (Some ''cancelled'') booked_store =
     (reply 200 True MsgStatusUpdated,
      booked_store\<lparr>bookings := [demo_booking\<lparr>b_status := ''cancelled''\<rparr>]\<rparr>) \<and>
   update_status 7 None (Some 1) (Some ''completed'')
       (booked_store\<lparr>bookings :=
          [demo_booking\<lparr>b_status := ''cancelled'', b_payment_status := ''refunded''\<rparr>]\<rparr>) =
     (reply 200 True MsgStatusUpdated,
      booked_store\<lparr>bookings :=
          [demo_booking\<lparr>b_status := ''completed'', b_payment_status := ''refunded''\<rparr>]\<rparr>) \<and>
   update_status 7 None (Some 1) (Some ''missed'')
       (booked_store\<lparr>bookings :=
          [demo_booking\<lparr>b_status := ''cancelled'', b_payment_status := ''refunded''\<rparr>]\<rparr>) =
     (reply 500 False MsgUpdateStatusFailed,
      booked_store\<lparr>bookings :=
          [demo_booking\<lparr>b_status := ''cancelled'', b_payment_status := ''refunded''\<rparr>]\<rparr>)"
  by code_simp


section \<open>Check-in search\<close>

lemma set_booking_passenger_rows:
  "set (booking_passenger_rows s bid) =
     {(bp, p). bp \<in> set (booking_passengers s) \<and> p \<in> set (passengers s) \<and>
               bp_booking_id bp = bid \<and> bp_passenger_id bp = p_id p}"
  unfolding booking_passenger_rows_def by auto

lemma passenger_match_None:
  "passenger_match s bid n = None \<longleftrightarrow>
     (\<forall>bp \<in> set (booking_passengers s). \<forall>p \<in> set (passengers s).
        bp_booking_id bp = bid \<and> bp_passenger_id bp = p_id p \<longrightarrow>
        \<not> sql_eq (lower (p_last_name p)) (lower n))"
proof -
  have "passenger_match s bid n = None \<longleftrightarrow>
        filter (\<lambda>p. sql_eq (lower (p_last_name p)) (lower n)) (map snd (booking_passenger_rows s bid)) = []"
    unfolding passenger_match_def
    by (cases "filter (\<lambda>p. sql_eq (lower (p_last_name p)) (lower n)) (map snd (booking_passenger_rows s bid))") simp_all
  also have "\<dots> \<longleftrightarrow> (\<forall>x \<in> set (booking_passenger_rows s bid). \<not> sql_eq (lower (p_last_name (snd x))) (lower n))"
    by (simp add: filter_empty_conv)
  also have "\<dots> \<longleftrightarrow> (\<forall>bp \<in> set (booking_passengers s). \<forall>p \<in> set (passengers s).
        bp_booking_id bp = bid \<and> bp_passenger_id bp = p_id p \<longrightarrow>
        \<not> sql_eq (lower (p_last_name p)) (lower n))"
    unfolding set_booking_passenger_rows by auto
  finally show ?thesis .
qed

lemma passenger_match_found:
  assumes "\<exists>bp \<in> set (booking_passengers s). \<exists>p \<in> set (passengers s).
             bp_booking_id bp = bid \<and> bp_passenger_id bp = p_id p \<and>
             sql_eq (lower (p_last_name p)) (lower n)"
  shows "\<exists>pm. passenger_match s bid n = Some pm"
proof (cases "passenger_match s bid n")
  case None
  then show ?thesis using assms unfolding passenger_match_None by blast
next
  case (Some pm)
  then show ?thesis by blast
qed

lemma passenger_match_Some:
  assumes "\<exists>bp \<in> set (booking_passengers s). \<exists>p \<in> set (passengers s).
             bp_booking_id bp = bid \<and> bp_passenger_id bp = p_id p \<and> lower (p_last_name p) = lower n"
  shows "\<exists>pm. passenger_match s bid n = Some pm"
proof -
  from assms obtain bp p where m: "bp \<in> set (booking_passengers s)" "p \<in> set (passengers s)"
      "bp_booking_id bp = bid" "bp_passenger_id bp = p_id p" "lower (p_last_name p) = lower n"
    by blast
  from m(5) have "sql_eq (lower (p_last_name p)) (lower n)" by (simp add: sql_eq_def)
  with m(1-4) show ?thesis by (intro passenger_match_found) blast
qed

lemma concat_pairs_head:
  assumes "concat (map (\<lambda>x. map (\<lambda>y. (x, y)) (filter (Q x) ys)) (filter P xs)) = (a, b) # rest"
  shows "a \<in> set xs \<and> P a \<and> b \<in> set ys \<and> Q a b"
proof -
  have "(a, b) \<in> set (concat (map (\<lambda>x. map (\<lambda>y. (x, y)) (filter (Q x) ys)) (filter P xs)))"
    unfolding assms by simp
  then show ?thesis by auto
qed

lemma bookings_by_reference_head:
  assumes "bookings_by_reference s r = (b, f) # rest"
  shows "b \<in> set (bookings s) \<and> sql_eq (b_reference b) r \<and> f \<in> set (flights s) \<and>
         f_id f = b_flight_id b"
  using concat_pairs_head[of "\<lambda>b f. f_id f = b_flight_id b" "flights s"
          "\<lambda>b. sql_eq (b_reference b) r" "bookings s" b f rest] assms
  unfolding bookings_by_reference_def by simp

lemma bookings_by_reference_present:
  assumes "bookings_by_reference s r = (b, f) # rest"
  shows "list_ex (\<lambda>x. b_id x = b_id b) (bookings s)"
  using bookings_by_reference_head[OF assms] unfolding list_ex_iff by blast

text \<open>The search handler up to the last-name query, for a confirmed booking of the caller.\<close>

lemma checkin_search_resolved:
  assumes "valid_reference (trim (sr_booking_reference req))"
    and "valid_last_name (trim (sr_last_name req))"
    and "bookings_by_reference s (trim (sr_booking_reference req)) = (b, f) # rest"
    and "b_user_id b = uid" and "b_status b = ''confirmed''"
  shows "checkin_search uid now None req s =
     (case passenger_match s (b_id b) (trim (sr_last_name req)) of
        None \<Rightarrow> (reply 404 False MsgLastNameMismatch, s)
      | Some passengerMatch \<Rightarrow>
          if (case first_row (check_ins_of s (b_id b)) of
                None \<Rightarrow> False
              | Some existingCheckIn \<Rightarrow> ci_status existingCheckIn = ''completed'')
          then (reply_data 400 False MsgAlreadyCheckedIn (CheckinData b None True), s)
          else if f_departure f - now < 0 then
            (case first_row (check_ins_of s (b_id b)) of
               None \<Rightarrow> (reply 500 False MsgSearchFailed, s)
             | Some existingCheckInAfter \<Rightarrow> (reply 400 False MsgDepartedMissedIfNotCheckedIn, s))
          else if f_departure f - now > 24 * 3600000
          then (reply 400 False (MsgCheckInOpensIn (hours_until_open (f_departure f - now))), s)
          else (reply_data 200 True MsgNone
                  (CheckinData b (Some (passenger_list s (b_id b))) False), s))"
proof -
  have w: "update_booking_status (b_id b) ''missed'' None s = None"
    using bookings_by_reference_present[OF assms(3)]
    by (simp add: update_booking_status_rejected[OF enum_missed])
  show ?thesis
    using assms w unfolding checkin_search_def Let_def throws_def
    by (simp split: option.splits)
qed




lemma passenger_list_passengers:
  "set (map pv_passenger (passenger_list s bid)) =
     {p \<in> set (passengers s). \<exists>bp \<in> set (booking_passengers s).
          bp_booking_id bp = bid \<and> bp_passenger_id bp = p_id p}"
proof -
  have "map pv_passenger (passenger_list s bid) =
        map snd (sort_key (\<lambda>(bp, p). (lower (p_last_name p), lower (p_first_name p)))
                   (booking_passenger_rows s bid))"
    unfolding passenger_list_def by (simp add: case_prod_beta comp_def)
  then have "set (map pv_passenger (passenger_list s bid)) = snd ` set (booking_passenger_rows s bid)"
    by simp
  also have "\<dots> = {p \<in> set (passengers s). \<exists>bp \<in> set (booking_passengers s).
          bp_booking_id bp = bid \<and> bp_passenger_id bp = p_id p}"
    unfolding set_booking_passenger_rows by force
  finally show ?thesis .
qed

text \<open>
  Claim C8 (Check-In Search, open window), as amended. For a valid reference, the owner, a
  matching last name and a confirmed booking: when a completed check-in exists the search
  answers 400 "already checked in", carrying the booking and the flag \<open>alreadyCheckedIn\<close>
  but no passenger list; when none exists and the departure is between 0 and 24 hours away,
  it answers 200 with the booking and its passenger list, which holds exactly the passengers
  linked to the booking.
\<close>

theorem checkin_search_window_open:
  assumes "valid_reference (trim (sr_booking_reference req))"
    and "valid_last_name (trim (sr_last_name req))"
    and "bookings_by_reference s (trim (sr_booking_reference req)) = (b, f) # rest"
    and "b_user_id b = uid" and "b_status b = ''confirmed''"
    and "\<exists>bp \<in> set (booking_passengers s). \<exists>p \<in> set (passengers s).
           bp_booking_id bp = b_id b \<and> bp_passenger_id bp = p_id p \<and>
           lower (p_last_name p) = lower (trim (sr_last_name req))"
  shows "((\<exists>c. first_row (check_ins_of s (b_id b)) = Some c \<and> ci_status c = ''completed'') \<longrightarrow>
            checkin_search uid now None req s =
              (reply_data 400 False MsgAlreadyCheckedIn (CheckinData b None True), s)) \<and>
         (\<not> (\<exists>c. first_row (check_ins_of s (b_id b)) = Some c \<and> ci_status c = ''completed'') \<and>
          0 \<le> f_departure f - now \<and> f_departure f - now \<le> 24 * 3600000 \<longrightarrow>
            checkin_search uid now None req s =
              (reply_data 200 True MsgNone
                 (CheckinData b (Some (passenger_list s (b_id b))) False), s)) \<and>
         set (map pv_passenger (passenger_list s (b_id b))) =
           {p \<in> set (passengers s). \<exists>bp \<in> set (booking_passengers s).
                bp_booking_id bp = b_id b \<and> bp_passenger_id bp = p_id p}"
proof (intro conjI impI)
  obtain pm where pm: "passenger_match s (b_id b) (trim (sr_last_name req)) = Some pm"
    using passenger_match_Some[OF assms(6)] by blast
  note r = checkin_search_resolved[OF assms(1-5), of now, unfolded pm option.case]
  {
    assume "\<exists>c. first_row (check_ins_of s (b_id b)) = Some c \<and> ci_status c = ''completed''"
    then obtain c where "first_row (check_ins_of s (b_id b)) = Some c" "ci_status c = ''completed''"
      by blast
    then show "checkin_search uid now None req s =
              (reply_data 400 False MsgAlreadyCheckedIn (CheckinData b None True), s)"
      unfolding r by simp
  }
  {
    assume a: "\<not> (\<exists>c. first_row (check_ins_of s (b_id b)) = Some c \<and> ci_status c = ''completed'') \<and>
          0 \<le> f_departure f - now \<and> f_departure f - now \<le> 24 * 3600000"
    then have n: "\<not> (case first_row (check_ins_of s (b_id b)) of
                None \<Rightarrow> False
              | Some existingCheckIn \<Rightarrow> ci_status existingCheckIn = ''completed'')"
      by (cases "first_row (check_ins_of s (b_id b))") simp_all
    from a have w: "\<not> f_departure f - now < 0" "\<not> f_departure f - now > 24 * 3600000"
      by simp_all
    show "checkin_search uid now None req s =
              (reply_data 200 True MsgNone
                 (CheckinData b (Some (passenger_list s (b_id b))) False), s)"
      unfolding r using n w by simp
  }
  show "set (map pv_passenger (passenger_list s (b_id b))) =
           {p \<in> set (passengers s). \<exists>bp \<in> set (booking_passengers s).
                bp_booking_id bp = b_id b \<and> bp_passenger_id bp = p_id p}"
    by (rule passenger_list_passengers)
qed

theorem checkin_search_window_open_witness:
  "checkin_search 7 99000000 None \<lparr>sr_booking_reference = ''BKA12'', sr_last_name = ''lee''\<rparr> booked_store =
     (reply_data 200 True MsgNone
        (CheckinData demo_booking (Some (passenger_list booked_store (b_id demo_booking))) False),
      booked_store) \<and>
   checkin_search 7 99000000 None \<lparr>sr_booking_reference = ''BKA12'', sr_last_name = ''lee''\<rparr> checked_in_store =
     (reply_data 400 False MsgAlreadyCheckedIn (CheckinData demo_booking None True), checked_in_store)"
proof -
  let ?req = "\<lparr>sr_booking_reference = ''BKA12'', sr_last_name = ''lee''\<rparr>"
  have h1: "valid_reference (trim (sr_booking_reference ?req))" by code_simp
  have h2: "valid_last_name (trim (sr_last_name ?req))" by code_simp
  have h3: "bookings_by_reference booked_store (trim (sr_booking_reference ?req)) = (demo_booking, demo_flight) # []"
    by code_simp
  have h3': "bookings_by_reference checked_in_store (trim (sr_booking_reference ?req)) = (demo_booking, demo_flight) # []"
    by code_simp
  have h4: "b_user_id demo_booking = 7" by code_simp
  have h5: "b_status demo_booking = ''confirmed''" by code_simp
  have h6: "\<exists>bp \<in> set (booking_passengers booked_store). \<exists>p \<in> set (passengers booked_store).
           bp_booking_id bp = b_id demo_booking \<and> bp_passenger_id bp = p_id p \<and>
           lower (p_last_name p) = lower (trim (sr_last_name ?req))"
    by code_simp
  have h6': "\<exists>bp \<in> set (booking_passengers checked_in_store). \<exists>p \<in> set (passengers checked_in_store).
           bp_booking_id bp = b_id demo_booking \<and> bp_passenger_id bp = p_id p \<and>
           lower (p_last_name p) = lower (trim (sr_last_name ?req))"
    by code_simp
  have h7: "\<not> (\<exists>c. first_row (check_ins_of booked_store (b_id demo_booking)) = Some c \<and> ci_status c = ''completed'') \<and>
          0 \<le> f_departure demo_flight - 99000000 \<and> f_departure demo_flight - 99000000 \<le> 24 * 3600000"
    by (simp add: check_ins_of_def booked_store_def demo_store_def demo_flight_def)
  have h8: "\<exists>c. first_row (check_ins_of checked_in_store (b_id demo_booking)) = Some c \<and> ci_status c = ''completed''"
    by (simp add: check_ins_of_def checked_in_store_def booked_store_def demo_store_def demo_booking_def)
  from checkin_search_window_open[OF h1 h2 h3 h4 h5 h6, of 99000000] h7
       checkin_search_window_open[OF h1 h2 h3' h4 h5 h6', of 99000000] h8
  show ?thesis by blast
qed

theorem checkin_search_window_open_counterexample:
  "0 \<le> f_departure demo_flight - 99000000 \<and> f_departure demo_flight - 99000000 \<le> 24 * 3600000 \<and>
   first_row (check_ins_of checked_in_store 1) =
     Some \<lparr>ci_id = 1, ci_booking_id = 1, ci_datetime = 99000000, ci_gate_number = ''TBA'',
           ci_boarding_time = 98200000, ci_status = ''completed''\<rparr> \<and>
   fst (checkin_search 7 99000000 None
          \<lparr>sr_booking_reference = ''BKA12'', sr_last_name = ''lee''\<rparr> checked_in_store) =
     \<lparr>r_code = 400, r_success = False, r_message = MsgAlreadyCheckedIn,
      r_data = CheckinData demo_booking None True\<rparr>"
  by code_simp


section \<open>Flight search: available seats and total price\<close>



lemma search_flights_read_only: "snd (search_flights flt q s) = s"
  by (cases "view_flights flt 1 s q (found_flights s q)") (simp_all add: search_flights_def)






section \<open>Check-in confirmation\<close>

subsection \<open>Seat strings and the seat column\<close>

lemma upper_char_space: "upper_char c = CHR '' '' \<Longrightarrow> c = CHR '' ''"
proof (cases "is_lower c")
  case False
  assume "upper_char c = CHR '' ''"
  with False show ?thesis by (simp add: upper_char_def)
next
  case True
  assume "upper_char c = CHR '' ''"
  with True have "char_of (of_char c - 32 :: nat) = CHR '' ''" by (simp add: upper_char_def)
  then have "of_char (char_of (of_char c - 32 :: nat) :: char) = (of_char (CHR '' '') :: nat)"
    by simp
  then have "(of_char c - 32 :: nat) mod 256 = 32" by (simp add: of_char_of)
  moreover from True have "97 \<le> (of_char c :: nat)" "(of_char c :: nat) \<le> 122"
    by (simp_all add: is_lower_def)
  ultimately show ?thesis by simp
qed

lemma trim_last: "trim v \<noteq> [] \<Longrightarrow> \<not> is_space (last (trim v))"
proof -
  assume a: "trim v \<noteq> []"
  let ?w = "dropWhile is_space (rev (dropWhile is_space v))"
  from a have n: "?w \<noteq> []" by (simp add: trim_def)
  then have "\<not> is_space (hd ?w)" by (rule hd_dropWhile)
  moreover have "last (trim v) = hd ?w" using n by (simp add: trim_def last_rev)
  ultimately show ?thesis by simp
qed

lemma length_toUpperCase: "length (toUpperCase v) = length v"
  by (simp add: toUpperCase_def)

lemma seat_string_last:
  assumes "trim v \<noteq> []"
  shows "last (toUpperCase (trim v)) \<noteq> CHR '' ''"
proof
  assume e: "last (toUpperCase (trim v)) = CHR '' ''"
  have "last (toUpperCase (trim v)) = upper_char (last (trim v))"
    using assms by (simp add: toUpperCase_def last_map)
  with e have "last (trim v) = CHR '' ''" by (simp add: upper_char_space)
  then have "is_space (last (trim v))" by (simp add: is_space_def)
  with trim_last[OF assms] show False by simp
qed

lemma varchar_seat_string:
  "varchar n (toUpperCase (trim v)) =
     (if length (trim v) \<le> n then Some (toUpperCase (trim v)) else None)"
proof (cases "length (trim v) \<le> n")
  case True
  then show ?thesis by (simp add: varchar_def length_toUpperCase)
next
  case False
  let ?u = "toUpperCase (trim v)"
  from False have l: "n < length ?u" by (simp add: length_toUpperCase)
  then have t: "trim v \<noteq> []" by (auto simp add: length_toUpperCase)
  from l have d: "drop n ?u \<noteq> []" by simp
  then have "last (drop n ?u) = last ?u" by simp
  with seat_string_last[OF t] have "last (drop n ?u) \<noteq> CHR '' ''" by simp
  moreover have "last (drop n ?u) \<in> set (drop n ?u)" using d by (rule last_in_set)
  ultimately have "\<not> list_all (\<lambda>c. c = CHR '' '') (drop n ?u)"
    unfolding list_all_iff by blast
  with l False show ?thesis by (simp add: varchar_def)
qed

lemma write_seat_absent:
  "\<not> list_ex (\<lambda>bp. bp_id bp = bpid) (booking_passengers s) \<Longrightarrow> write_seat bpid seat s = s"
  by (simp add: write_seat_def map_if_none)

lemma write_seat_ids: "map bp_id (booking_passengers (write_seat bpid seat s)) = map bp_id (booking_passengers s)"
  by (simp add: write_seat_def comp_def)

lemma set_seat_string:
  "set_seat bpid (toUpperCase (trim v)) s =
     (if list_ex (\<lambda>bp. bp_id bp = bpid) (booking_passengers s) \<and> 10 < length (trim v)
      then None
      else Some (write_seat bpid (toUpperCase (trim v)) s))"
  by (simp add: set_seat_def varchar_seat_string write_seat_absent)

lemma assign_seats_no_fault:
  assumes "list_all (\<lambda>p. length (trim (snd p)) \<le> 10) ps"
  shows "assign_seats None k ps s = Some (k + length ps, seat_writes ps s)"
  using assms
  by (induction ps arbitrary: k s) (auto simp add: seat_writes_def throws_def set_seat_string)

lemma assign_seats_Some:
  "assign_seats flt k ps s = Some (k', s') \<Longrightarrow> k' = k + length ps \<and> s' = seat_writes ps s"
proof (induction ps arbitrary: k s)
  case Nil
  then show ?case by (simp add: seat_writes_def)
next
  case (Cons p ps)
  obtain i seat where p: "p = (i, seat)" by (cases p)
  from Cons.prems p have "\<not> throws flt k"
    and "assign_seats flt (Suc k) ps (write_seat i (toUpperCase (trim seat)) s) = Some (k', s')"
    by (simp_all add: set_seat_string split: if_splits)
  from Cons.IH[OF this(2)] show ?case by (simp add: p seat_writes_def)
qed

lemma assign_seats_without_fault:
  "assign_seats flt k ps s = Some (k', s') \<Longrightarrow> assign_seats None k ps s = Some (k', s')"
proof (induction ps arbitrary: k s)
  case Nil
  then show ?case by simp
next
  case (Cons p ps)
  obtain i seat where p: "p = (i, seat)" by (cases p)
  from Cons.prems p have w: "set_seat i (toUpperCase (trim seat)) s =
        Some (write_seat i (toUpperCase (trim seat)) s)"
    and r: "assign_seats flt (Suc k) ps (write_seat i (toUpperCase (trim seat)) s) = Some (k', s')"
    by (simp_all add: set_seat_string split: if_splits)
  from Cons.IH[OF r] show ?case by (simp add: p w throws_def)
qed

text \<open>A seat string that does not fit the column makes the seat loop fail.\<close>

lemma assign_seats_too_long:
  assumes "\<not> list_all (\<lambda>p. length (trim (snd p)) \<le> 10) ps"
    and "fst ` set ps \<subseteq> set (map bp_id (booking_passengers s))"
  shows "assign_seats flt k ps s = None"
  using assms
proof (induction ps arbitrary: k s)
  case Nil
  then show ?case by simp
next
  case (Cons p ps)
  obtain i seat where p: "p = (i, seat)" by (cases p)
  from Cons.prems(2) p have e: "list_ex (\<lambda>bp. bp_id bp = i) (booking_passengers s)"
    unfolding list_ex_iff by auto
  show ?case
  proof (cases "10 < length (trim seat)")
    case True
    then show ?thesis using e by (simp add: p set_seat_string)
  next
    case False
    with Cons.prems(1) p have t: "\<not> list_all (\<lambda>p. length (trim (snd p)) \<le> 10) ps" by simp
    have "fst ` set ps \<subseteq> set (map bp_id (booking_passengers (write_seat i (toUpperCase (trim seat)) s)))"
      unfolding write_seat_ids using Cons.prems(2) by auto
    from Cons.IH[OF t this] show ?thesis using False by (simp add: p set_seat_string)
  qed
qed

subsection \<open>The writes of an open check-in\<close>

lemma seat_writes_other_tables:
  "bookings (seat_writes ps s) = bookings s \<and> flights (seat_writes ps s) = flights s \<and>
   aircraft (seat_writes ps s) = aircraft s \<and> passengers (seat_writes ps s) = passengers s \<and>
   check_ins (seat_writes ps s) = check_ins s"
  by (induction ps arbitrary: s) (auto simp add: seat_writes_def write_seat_def)

lemma seat_writes_links:
  assumes "distinct (map fst ps)"
  shows "booking_passengers (seat_writes ps s) =
     map (\<lambda>bp. case map_of ps (bp_id bp) of
                  None \<Rightarrow> bp
                | Some seat \<Rightarrow> bp\<lparr>bp_seat_number := Some (toUpperCase (trim seat))\<rparr>)
         (booking_passengers s)"
  using assms
proof (induction ps arbitrary: s)
  case Nil
  then show ?case by (simp add: seat_writes_def)
next
  case (Cons p ps)
  obtain i seat where p: "p = (i, seat)" by (cases p)
  from Cons.prems p have d: "distinct (map fst ps)" and n: "map_of ps i = None"
    by (simp_all add: map_of_eq_None_iff)
  have "seat_writes (p # ps) s = seat_writes ps (write_seat i (toUpperCase (trim seat)) s)"
    by (simp add: seat_writes_def p)
  then have "booking_passengers (seat_writes (p # ps) s) =
     map (\<lambda>bp. case map_of ps (bp_id bp) of
                  None \<Rightarrow> bp
                | Some seat \<Rightarrow> bp\<lparr>bp_seat_number := Some (toUpperCase (trim seat))\<rparr>)
         (booking_passengers (write_seat i (toUpperCase (trim seat)) s))"
    using Cons.IH[OF d] by simp
  also have "\<dots> = map (\<lambda>bp. case map_of (p # ps) (bp_id bp) of
                  None \<Rightarrow> bp
                | Some seat \<Rightarrow> bp\<lparr>bp_seat_number := Some (toUpperCase (trim seat))\<rparr>)
         (booking_passengers s)"
    unfolding write_seat_def p using n by (simp add: comp_def)
  finally show ?case .
qed

lemma passenger_links_props:
  "sorted (passenger_links s bid) \<and>
   set (passenger_links s bid) = bp_id ` {bp \<in> set (booking_passengers s). bp_booking_id bp = bid}"
  unfolding passenger_links_def by auto

lemma passenger_links_distinct:
  "distinct (map bp_id (booking_passengers s)) \<Longrightarrow> distinct (passenger_links s bid)"
  unfolding passenger_links_def by (simp add: distinct_map_filter)

lemma gate_fits:
  assumes "valid_confirm req"
  shows "length (gate_or_tba (cf_gate_number req)) \<le> 10"
proof (cases "cf_gate_number req")
  case None
  then show ?thesis by (simp add: gate_or_tba_def)
next
  case (Some g)
  with assms have "length (trim g) \<le> 10" by (simp add: valid_confirm_def)
  then show ?thesis using Some by (cases "trim g = []") (simp_all add: gate_or_tba_def)
qed

lemma insert_check_in_new:
  assumes "valid_confirm req" and "check_ins_of s bid = []"
  shows "insert_check_in bid now (gate_or_tba (cf_gate_number req)) t s =
         Some (add_check_in bid now (gate_or_tba (cf_gate_number req)) t s)"
proof -
  from assms(2) have "\<not> list_ex (\<lambda>c. ci_booking_id c = bid) (check_ins s)"
    by (simp add: check_ins_of_def list_ex_iff filter_empty_conv)
  then show ?thesis
    by (simp add: insert_check_in_def varchar_fits[OF gate_fits[OF assms(1)]])
qed

lemma own_confirmed_present:
  "own_confirmed_bookings s bid uid \<noteq> [] \<Longrightarrow> list_ex (\<lambda>b. b_id b = bid) (bookings s)"
  by (auto simp add: own_confirmed_bookings_def list_ex_iff filter_empty_conv)

text \<open>The confirm handler up to the writes, for a confirmed booking of the caller
  without a check-in row.\<close>

lemma checkin_confirm_resolved:
  assumes "valid_confirm req" and "cf_booking_id req = Some bid"
    and "own_confirmed_bookings s bid uid = b # rest"
    and "check_ins_of s bid = []"
    and "filter (\<lambda>f. f_id f = b_flight_id b) (flights s) = f # frest"
    and "\<not> throws flt 0" "\<not> throws flt 1" "\<not> throws flt 2" "\<not> throws flt 3"
  shows "checkin_confirm uid now flt req s =
     (if f_departure f - now < 0 then (reply 500 False MsgConfirmFailed, s)
      else if f_departure f - now > 24 * 3600000
      then (reply 400 False MsgCheckInOpens24h, s)
      else write_check_in now flt req bid f s)"
proof -
  have "own_confirmed_bookings s bid uid \<noteq> []" using assms(3) by simp
  from own_confirmed_present[OF this]
  have w: "update_booking_status bid ''missed'' None s = None"
    by (simp add: update_booking_status_rejected[OF enum_missed])
  show ?thesis
    using assms w unfolding checkin_confirm_def by simp
qed

lemma write_check_in_atomic:
  assumes "valid_confirm req" and "check_ins_of s bid = []"
  shows "snd (write_check_in now flt req bid f s) = s \<or>
         snd (write_check_in now flt req bid f s) = snd (write_check_in now None req bid f s)"
proof (cases "assign_seats flt 6 (zip (passenger_links s bid) (cf_seat_numbers req))
                (add_check_in bid now (gate_or_tba (cf_gate_number req))
                   (f_departure f - 1800000) s)")
  case None
  then show ?thesis
    unfolding write_check_in_def Let_def by (simp add: insert_check_in_new[OF assms])
next
  case (Some r)
  obtain k s' where r: "r = (k, s')" by (cases r)
  from assign_seats_without_fault[OF Some[unfolded r]]
  have n: "assign_seats None 6 (zip (passenger_links s bid) (cf_seat_numbers req))
                (add_check_in bid now (gate_or_tba (cf_gate_number req))
                   (f_departure f - 1800000) s) = Some (k, s')" .
  show ?thesis
    unfolding write_check_in_def Let_def
    by (simp add: Some r n throws_def insert_check_in_new[OF assms])
qed

lemma checkin_confirm_atomic:
  assumes "valid_confirm req" and "cf_booking_id req = Some bid"
    and "own_confirmed_bookings s bid uid = b # rest"
    and "check_ins_of s bid = []"
    and "filter (\<lambda>f. f_id f = b_flight_id b) (flights s) = f # frest"
  shows "snd (checkin_confirm uid now flt req s) = s \<or>
         snd (checkin_confirm uid now flt req s) = snd (checkin_confirm uid now None req s)"
proof (cases "throws flt 0 \<or> throws flt 1 \<or> throws flt 2 \<or> throws flt 3")
  case True
  then show ?thesis
    using assms unfolding checkin_confirm_def by auto
next
  case False
  then have nf: "\<not> throws flt 0" "\<not> throws flt 1" "\<not> throws flt 2" "\<not> throws flt 3" by simp_all
  have n0: "\<not> throws None 0" "\<not> throws None 1" "\<not> throws None 2" "\<not> throws None 3"
    by (simp_all add: throws_def)
  show ?thesis
    unfolding checkin_confirm_resolved[OF assms nf] checkin_confirm_resolved[OF assms n0]
    using write_check_in_atomic[OF assms(1,4), of now flt f]
    by auto
qed

lemma write_check_in_mismatch:
  assumes "length (cf_seat_numbers req) \<noteq> length (passenger_links s bid)"
  shows "write_check_in now None req bid f s =
     (reply 400 False (MsgSeatCountMismatch (length (cf_seat_numbers req))
                         (length (passenger_links s bid))), s)"
  using assms unfolding write_check_in_def Let_def by (auto simp add: throws_def)

lemma zip_seats_fit:
  assumes "length ids = length seats"
  shows "list_all (\<lambda>p. length (trim (snd p)) \<le> 10) (zip ids seats) \<longleftrightarrow>
         list_all (\<lambda>seat. length (trim seat) \<le> 10) seats"
  using assms by (induction ids seats rule: list_induct2) simp_all

lemma write_check_in_done:
  assumes "valid_confirm req" and "check_ins_of s bid = []"
    and "length (cf_seat_numbers req) = length (passenger_links s bid)"
    and "list_all (\<lambda>seat. length (trim seat) \<le> 10) (cf_seat_numbers req)"
  shows "write_check_in now None req bid f s =
     (reply_data 200 True MsgCheckInConfirmed
        (ConfirmData bid (gate_or_tba (cf_gate_number req)) (f_departure f - 1800000)),
      seat_writes (zip (passenger_links s bid) (cf_seat_numbers req))
        (add_check_in bid now (gate_or_tba (cf_gate_number req)) (f_departure f - 1800000) s))"
proof -
  have z: "list_all (\<lambda>p. length (trim (snd p)) \<le> 10)
             (zip (passenger_links s bid) (cf_seat_numbers req))"
    using zip_seats_fit[OF assms(3)[symmetric]] assms(4) by simp
  show ?thesis
    using assms(3) unfolding write_check_in_def Let_def
    by (simp add: throws_def insert_check_in_new[OF assms(1,2)] assign_seats_no_fault[OF z])
qed

lemma write_check_in_too_long:
  assumes "valid_confirm req" and "check_ins_of s bid = []"
    and "length (cf_seat_numbers req) = length (passenger_links s bid)"
    and "\<not> list_all (\<lambda>seat. length (trim seat) \<le> 10) (cf_seat_numbers req)"
  shows "write_check_in now flt req bid f s = (reply 500 False MsgConfirmFailed, s)"
proof -
  let ?s1 = "add_check_in bid now (gate_or_tba (cf_gate_number req)) (f_departure f - 1800000) s"
  have z: "\<not> list_all (\<lambda>p. length (trim (snd p)) \<le> 10)
             (zip (passenger_links s bid) (cf_seat_numbers req))"
    using zip_seats_fit[OF assms(3)[symmetric]] assms(4) by simp
  have "fst ` set (zip (passenger_links s bid) (cf_seat_numbers req)) \<subseteq> set (passenger_links s bid)"
    by (auto dest: set_zip_leftD)
  also have "\<dots> \<subseteq> set (map bp_id (booking_passengers ?s1))"
    using passenger_links_props[of s bid] by (auto simp add: add_check_in_def)
  finally have "assign_seats flt 6 (zip (passenger_links s bid) (cf_seat_numbers req)) ?s1 = None"
    by (rule assign_seats_too_long[OF z])
  then show ?thesis
    using assms(3) unfolding write_check_in_def Let_def
    by (simp add: insert_check_in_new[OF assms(1,2)])
qed

lemma seat_written:
  assumes d: "distinct ids" and l: "length ids = length seats" and i: "i < length ids"
    and bp: "bp \<in> set (booking_passengers (seat_writes (zip ids seats) s))"
    and e: "bp_id bp = ids ! i"
  shows "bp_seat_number bp = Some (toUpperCase (trim (seats ! i)))"
proof -
  have dz: "distinct (map fst (zip ids seats))" using d l by simp
  have m: "map_of (zip ids seats) (ids ! i) = Some (seats ! i)"
    using d l i by (simp add: map_of_zip_nth)
  from bp obtain x where x: "x \<in> set (booking_passengers s)"
    and b: "bp = (case map_of (zip ids seats) (bp_id x) of
                  None \<Rightarrow> x
                | Some seat \<Rightarrow> x\<lparr>bp_seat_number := Some (toUpperCase (trim seat))\<rparr>)"
    unfolding seat_writes_links[OF dz] by auto
  have "bp_id bp = bp_id x" using b by (simp split: option.splits)
  then have "bp_id x = ids ! i" using e by simp
  then show ?thesis using b m by simp
qed

lemma seat_writes_ids:
  assumes "distinct (map fst ps)"
  shows "map bp_id (booking_passengers (seat_writes ps s)) = map bp_id (booking_passengers s)"
  unfolding seat_writes_links[OF assms] by (simp add: comp_def split: option.splits)

lemma seat_writes_other_links:
  assumes dz: "distinct (map fst ps)"
    and o: "\<And>bp. bp \<in> set (booking_passengers s) \<Longrightarrow> bp_booking_id bp \<noteq> bid \<Longrightarrow> bp_id bp \<notin> fst ` set ps"
  shows "filter (\<lambda>bp. bp_booking_id bp \<noteq> bid) (booking_passengers (seat_writes ps s)) =
         filter (\<lambda>bp. bp_booking_id bp \<noteq> bid) (booking_passengers s)"
proof -
  let ?h = "\<lambda>bp. case map_of ps (bp_id bp) of
                  None \<Rightarrow> bp
                | Some seat \<Rightarrow> bp\<lparr>bp_seat_number := Some (toUpperCase (trim seat))\<rparr>"
  have "filter (\<lambda>bp. bp_booking_id bp \<noteq> bid) (map ?h xs) = filter (\<lambda>bp. bp_booking_id bp \<noteq> bid) xs"
    if "set xs \<subseteq> set (booking_passengers s)" for xs
    using that
  proof (induction xs)
    case Nil
    then show ?case by simp
  next
    case (Cons x xs)
    have k: "bp_booking_id (?h x) = bp_booking_id x" by (simp split: option.splits)
    show ?case
    proof (cases "bp_booking_id x = bid")
      case True
      then show ?thesis using Cons k by simp
    next
      case False
      then have "bp_id x \<notin> fst ` set ps" using o Cons.prems by simp
      then have "map_of ps (bp_id x) = None" by (simp add: map_of_eq_None_iff)
      then have "?h x = x" by simp
      then show ?thesis using Cons False by simp
    qed
  qed
  then show ?thesis unfolding seat_writes_links[OF dz] by simp
qed

text \<open>
  Claim C5 (Check-In Confirm), as amended. On a confirmed booking of the caller without a
  check-in row, whose flight departs between 0 and 24 hours from now, with unique link ids
  and no failing database call: a request that fails the validation chain (no seat
  strings, a blank seat string, a gate of more than 10 characters) is answered 400
  "Validation failed", whatever the counts. For a request that passes it: when the number
  of seat strings differs from the number of passenger links the handler answers 400 with
  the count message and changes nothing; when the numbers agree and some trimmed seat
  string has more than 10 characters, the seat update fails on the VARCHAR(10) column and
  the handler answers 500 and changes nothing; when they agree and every trimmed seat
  string has at most 10 characters it answers 200, appends exactly one check-in row for the
  booking with status \<open>completed\<close> and boarding time = departure - 30 minutes, and the link
  whose id is the i-th in ascending id order carries the i-th seat string, trimmed and
  upper-cased; link ids, the links of other bookings, bookings and passengers are unchanged.
  Whatever database call fails, the store is the old one or the fully written one.
\<close>

theorem checkin_confirm_contract:
  assumes "cf_booking_id req = Some bid"
    and "own_confirmed_bookings s bid uid = b # rest"
    and "check_ins_of s bid = []"
    and "filter (\<lambda>f. f_id f = b_flight_id b) (flights s) = f # frest"
    and "0 \<le> f_departure f - now" and "f_departure f - now \<le> 24 * 3600000"
    and "distinct (map bp_id (booking_passengers s))"
  shows "(\<not> valid_confirm req \<longrightarrow>
            checkin_confirm uid now None req s = (reply 400 False MsgValidationFailed, s)) \<and>
         (valid_confirm req \<and>
          length (cf_seat_numbers req) \<noteq> length (passenger_links s bid) \<longrightarrow>
            checkin_confirm uid now None req s =
              (reply 400 False (MsgSeatCountMismatch (length (cf_seat_numbers req))
                                  (length (passenger_links s bid))), s)) \<and>
         (valid_confirm req \<and>
          length (cf_seat_numbers req) = length (passenger_links s bid) \<and>
          \<not> list_all (\<lambda>seat. length (trim seat) \<le> 10) (cf_seat_numbers req) \<longrightarrow>
            checkin_confirm uid now None req s = (reply 500 False MsgConfirmFailed, s)) \<and>
         (valid_confirm req \<and>
          length (cf_seat_numbers req) = length (passenger_links s bid) \<and>
          list_all (\<lambda>seat. length (trim seat) \<le> 10) (cf_seat_numbers req) \<longrightarrow>
            r_code (fst (checkin_confirm uid now None req s)) = 200 \<and>
            (\<exists>c. check_ins (snd (checkin_confirm uid now None req s)) = check_ins s @ [c] \<and>
                 ci_booking_id c = bid \<and> ci_status c = ''completed'' \<and>
                 ci_boarding_time c = f_departure f - 30 * 60 * 1000) \<and>
            (\<forall>i < length (passenger_links s bid).
               \<forall>bp \<in> set (booking_passengers (snd (checkin_confirm uid now None req s))).
                 bp_id bp = passenger_links s bid ! i \<longrightarrow>
                 bp_seat_number bp = Some (toUpperCase (trim (cf_seat_numbers req ! i)))) \<and>
            map bp_id (booking_passengers (snd (checkin_confirm uid now None req s))) =
              map bp_id (booking_passengers s) \<and>
            filter (\<lambda>bp. bp_booking_id bp \<noteq> bid)
                   (booking_passengers (snd (checkin_confirm uid now None req s))) =
              filter (\<lambda>bp. bp_booking_id bp \<noteq> bid) (booking_passengers s) \<and>
            bookings (snd (checkin_confirm uid now None req s)) = bookings s \<and>
            passengers (snd (checkin_confirm uid now None req s)) = passengers s) \<and>
         sorted (passenger_links s bid) \<and>
         set (passenger_links s bid) =
           bp_id ` {bp \<in> set (booking_passengers s). bp_booking_id bp = bid} \<and>
         (\<forall>flt. snd (checkin_confirm uid now flt req s) = s \<or>
                snd (checkin_confirm uid now flt req s) = snd (checkin_confirm uid now None req s))"
proof -
  have n0: "\<not> throws None 0" "\<not> throws None 1" "\<not> throws None 2" "\<not> throws None 3"
    by (simp_all add: throws_def)
  have w: "\<not> f_departure f - now < 0" "\<not> f_departure f - now > 24 * 3600000"
    using assms(5,6) by simp_all
  let ?ids = "passenger_links s bid"
  let ?seats = "cf_seat_numbers req"
  let ?s1 = "add_check_in bid now (gate_or_tba (cf_gate_number req)) (f_departure f - 1800000) s"
  have dl: "distinct ?ids" using assms(7) by (rule passenger_links_distinct)
  have part0: "\<not> valid_confirm req \<longrightarrow>
            checkin_confirm uid now None req s = (reply 400 False MsgValidationFailed, s)"
    by (simp add: checkin_confirm_def)
  have r: "checkin_confirm uid now None req s = write_check_in now None req bid f s"
    if v: "valid_confirm req"
    unfolding checkin_confirm_resolved[OF v assms(1-4) n0] using w by simp
  have part1: "valid_confirm req \<and> length ?seats \<noteq> length ?ids \<longrightarrow>
            checkin_confirm uid now None req s =
              (reply 400 False (MsgSeatCountMismatch (length ?seats) (length ?ids)), s)"
    by (simp add: r write_check_in_mismatch)
  have part1b: "valid_confirm req \<and> length ?seats = length ?ids \<and>
          \<not> list_all (\<lambda>seat. length (trim seat) \<le> 10) ?seats \<longrightarrow>
            checkin_confirm uid now None req s = (reply 500 False MsgConfirmFailed, s)"
    by (simp add: r write_check_in_too_long[OF _ assms(3)])
  have part2: "r_code (fst (checkin_confirm uid now None req s)) = 200 \<and>
            (\<exists>c. check_ins (snd (checkin_confirm uid now None req s)) = check_ins s @ [c] \<and>
                 ci_booking_id c = bid \<and> ci_status c = ''completed'' \<and>
                 ci_boarding_time c = f_departure f - 30 * 60 * 1000) \<and>
            (\<forall>i < length ?ids.
               \<forall>bp \<in> set (booking_passengers (snd (checkin_confirm uid now None req s))).
                 bp_id bp = ?ids ! i \<longrightarrow>
                 bp_seat_number bp = Some (toUpperCase (trim (?seats ! i)))) \<and>
            map bp_id (booking_passengers (snd (checkin_confirm uid now None req s))) =
              map bp_id (booking_passengers s) \<and>
            filter (\<lambda>bp. bp_booking_id bp \<noteq> bid)
                   (booking_passengers (snd (checkin_confirm uid now None req s))) =
              filter (\<lambda>bp. bp_booking_id bp \<noteq> bid) (booking_passengers s) \<and>
            bookings (snd (checkin_confirm uid now None req s)) = bookings s \<and>
            passengers (snd (checkin_confirm uid now None req s)) = passengers s"
    if a: "valid_confirm req \<and> length ?seats = length ?ids \<and>
           list_all (\<lambda>seat. length (trim seat) \<le> 10) ?seats"
  proof -
    from a have v: "valid_confirm req" and l: "length ?seats = length ?ids"
      and t: "list_all (\<lambda>seat. length (trim seat) \<le> 10) ?seats"
      by simp_all
    have s': "snd (checkin_confirm uid now None req s) = seat_writes (zip ?ids ?seats) ?s1"
      and c: "fst (checkin_confirm uid now None req s) =
        reply_data 200 True MsgCheckInConfirmed
          (ConfirmData bid (gate_or_tba (cf_gate_number req)) (f_departure f - 1800000))"
      unfolding r[OF v] write_check_in_done[OF v assms(3) l t] by simp_all
    have dz: "distinct (map fst (zip ?ids ?seats))" using dl l by simp
    have l1: "booking_passengers ?s1 = booking_passengers s" by (simp add: add_check_in_def)
    have a1: "r_code (fst (checkin_confirm uid now None req s)) = 200"
      unfolding c by (simp add: reply_data_def)
    have a2: "\<exists>c. check_ins (snd (checkin_confirm uid now None req s)) = check_ins s @ [c] \<and>
                 ci_booking_id c = bid \<and> ci_status c = ''completed'' \<and>
                 ci_boarding_time c = f_departure f - 30 * 60 * 1000"
      unfolding s' by (simp add: seat_writes_other_tables add_check_in_def)
    have a3: "\<forall>i < length ?ids.
               \<forall>bp \<in> set (booking_passengers (snd (checkin_confirm uid now None req s))).
                 bp_id bp = ?ids ! i \<longrightarrow>
                 bp_seat_number bp = Some (toUpperCase (trim (?seats ! i)))"
      unfolding s' using seat_written[OF dl l[symmetric]] by blast
    have a4: "map bp_id (booking_passengers (snd (checkin_confirm uid now None req s))) =
              map bp_id (booking_passengers s)"
      unfolding s' seat_writes_ids[OF dz] l1 ..
    have o: "bp_id bp \<notin> fst ` set (zip ?ids ?seats)"
      if "bp \<in> set (booking_passengers ?s1)" "bp_booking_id bp \<noteq> bid" for bp
    proof
      assume "bp_id bp \<in> fst ` set (zip ?ids ?seats)"
      then have "bp_id bp \<in> set ?ids" by (auto dest: set_zip_leftD)
      then obtain x where x: "x \<in> set (booking_passengers s)" "bp_booking_id x = bid" "bp_id x = bp_id bp"
        using passenger_links_props[of s bid] by auto
      from that(1) have "bp \<in> set (booking_passengers s)" by (simp add: l1)
      with x assms(7) have "x = bp" by (simp add: distinct_map inj_on_def)
      with x that(2) show False by simp
    qed
    have "filter (\<lambda>bp. bp_booking_id bp \<noteq> bid)
                   (booking_passengers (seat_writes (zip ?ids ?seats) ?s1)) =
              filter (\<lambda>bp. bp_booking_id bp \<noteq> bid) (booking_passengers ?s1)"
      by (rule seat_writes_other_links[OF dz]) (fact o)
    then have a5: "filter (\<lambda>bp. bp_booking_id bp \<noteq> bid)
                   (booking_passengers (snd (checkin_confirm uid now None req s))) =
              filter (\<lambda>bp. bp_booking_id bp \<noteq> bid) (booking_passengers s)"
      unfolding s' by (simp add: l1)
    have a6: "bookings (snd (checkin_confirm uid now None req s)) = bookings s \<and>
            passengers (snd (checkin_confirm uid now None req s)) = passengers s"
      unfolding s' by (simp add: seat_writes_other_tables add_check_in_def)
    from a1 a2 a3 a4 a5 a6 show ?thesis by blast
  qed
  have part3: "\<forall>flt. snd (checkin_confirm uid now flt req s) = s \<or>
                snd (checkin_confirm uid now flt req s) = snd (checkin_confirm uid now None req s)"
  proof (cases "valid_confirm req")
    case True
    from checkin_confirm_atomic[OF True assms(1-4)] show ?thesis by blast
  next
    case False
    then show ?thesis by (simp add: checkin_confirm_def)
  qed
  from part0 part1 part1b part2 part3 passenger_links_props[of s bid] show ?thesis by blast
qed

theorem checkin_confirm_contract_witness:
  "bp_seat_number (hd (booking_passengers (snd (checkin_confirm 7 99000000 None
       \<lparr>cf_booking_id = Some 1, cf_seat_numbers = ['' 12a ''], cf_gate_number = None\<rparr> booked_store))))
     = Some ''12A'' \<and>
   check_ins (snd (checkin_confirm 7 99000000 None
       \<lparr>cf_booking_id = Some 1, cf_seat_numbers = ['' 12a ''], cf_gate_number = None\<rparr> booked_store))
     = check_ins checked_in_store \<and>
   checkin_confirm 7 99000000 None
       \<lparr>cf_booking_id = Some 1, cf_seat_numbers = [''12A'', ''12B''], cf_gate_number = None\<rparr> booked_store
     = (reply 400 False (MsgSeatCountMismatch 2 1), booked_store)"
proof -
  let ?req = "\<lparr>cf_booking_id = Some 1, cf_seat_numbers = ['' 12a ''], cf_gate_number = None\<rparr>"
  let ?req2 = "\<lparr>cf_booking_id = Some 1, cf_seat_numbers = [''12A'', ''12B''], cf_gate_number = None\<rparr>"
  have h2: "cf_booking_id ?req = Some 1" by simp
  have h2': "cf_booking_id ?req2 = Some 1" by simp
  have h3: "own_confirmed_bookings booked_store 1 7 = demo_booking # []" by code_simp
  have h4: "check_ins_of booked_store 1 = []" by code_simp
  have h5: "filter (\<lambda>f. f_id f = b_flight_id demo_booking) (flights booked_store) = demo_flight # []"
    by code_simp
  have h6: "0 \<le> f_departure demo_flight - 99000000" by code_simp
  have h7: "f_departure demo_flight - 99000000 \<le> 24 * 3600000" by code_simp
  have h8: "distinct (map bp_id (booking_passengers booked_store))" by code_simp
  have l: "valid_confirm ?req \<and>
           length (cf_seat_numbers ?req) = length (passenger_links booked_store 1) \<and>
           list_all (\<lambda>seat. length (trim seat) \<le> 10) (cf_seat_numbers ?req)" by code_simp
  have l': "valid_confirm ?req2 \<and>
            length (cf_seat_numbers ?req2) \<noteq> length (passenger_links booked_store 1)" by code_simp
  have n1: "length (cf_seat_numbers ?req2) = 2" by code_simp
  have n2: "length (passenger_links booked_store 1) = 1" by code_simp
  have e1: "bp_seat_number (hd (booking_passengers (snd (checkin_confirm 7 99000000 None ?req booked_store))))
     = Some ''12A''" by code_simp
  have e2: "check_ins (snd (checkin_confirm 7 99000000 None ?req booked_store)) = check_ins checked_in_store"
    by code_simp
  from checkin_confirm_contract[OF h2' h3 h4 h5 h6 h7 h8] l'
  have "checkin_confirm 7 99000000 None ?req2 booked_store
     = (reply 400 False (MsgSeatCountMismatch (length (cf_seat_numbers ?req2))
                           (length (passenger_links booked_store 1))), booked_store)"
    by blast
  then have "checkin_confirm 7 99000000 None ?req2 booked_store
     = (reply 400 False (MsgSeatCountMismatch 2 1), booked_store)"
    by (simp only: n1 n2)
  with checkin_confirm_contract[OF h2 h3 h4 h5 h6 h7 h8] l e1 e2
  show ?thesis by blast
qed

text \<open>
  On the booked store, whose booking has one passenger link: with no seat strings the
  counts differ and the answer is "Validation failed", not the count message; with one seat
  string of 12 characters the counts agree and nothing is written.
\<close>

theorem checkin_confirm_contract_counterexample:
  "own_confirmed_bookings booked_store 1 7 = [demo_booking] \<and>
   check_ins_of booked_store 1 = [] \<and>
   0 \<le> f_departure demo_flight - 99000000 \<and>
   f_departure demo_flight - 99000000 \<le> 24 * 3600000 \<and>
   length (passenger_links booked_store 1) = 1 \<and>
   checkin_confirm 7 99000000 None
       \<lparr>cf_booking_id = Some 1, cf_seat_numbers = [], cf_gate_number = None\<rparr> booked_store
     = (reply 400 False MsgValidationFailed, booked_store) \<and>
   checkin_confirm 7 99000000 None
       \<lparr>cf_booking_id = Some 1, cf_seat_numbers = [''12ABCDEFGHIJ''], cf_gate_number = None\<rparr>
       booked_store
     = (reply 500 False MsgConfirmFailed, booked_store)"
  by code_simp


section \<open>The missed transition\<close>

text \<open>
  Both check-in handlers write the status \<open>missed\<close> for a departed flight, and the ENUM
  column \<open>bookings.status\<close> has no such member: the UPDATE fails for every booking the
  handlers resolve. The search therefore never changes the store.
\<close>

lemma missed_write_rejected:
  "list_ex (\<lambda>b. b_id b = bid) (bookings s) \<Longrightarrow>
   update_booking_status bid ''missed'' None s = None"
  by (simp add: update_booking_status_rejected[OF enum_missed])

lemma checkin_search_read_only: "snd (checkin_search uid now flt req s) = s"
proof (cases "bookings_by_reference s (trim (sr_booking_reference req))")
  case Nil
  then show ?thesis unfolding checkin_search_def Let_def by simp
next
  case (Cons x rest)
  obtain b f where x: "x = (b, f)" by (cases x)
  have w: "update_booking_status (b_id b) ''missed'' None s = None"
    using bookings_by_reference_present[OF Cons[unfolded x]] by (rule missed_write_rejected)
  show ?thesis
    unfolding checkin_search_def Let_def using Cons x w
    by (simp split: option.splits)
qed

text \<open>
  A search for a confirmed booking of the caller, with a matching last name and no check-in
  row, after the departure: the answer is 500 whatever database call fails.
\<close>

lemma checkin_search_departed:
  assumes "valid_reference (trim (sr_booking_reference req))"
    and "valid_last_name (trim (sr_last_name req))"
    and "bookings_by_reference s (trim (sr_booking_reference req)) = (b, f) # rest"
    and "b_user_id b = uid" and "b_status b = ''confirmed''"
    and "passenger_match s (b_id b) (trim (sr_last_name req)) = Some pm"
    and "check_ins_of s (b_id b) = []"
    and "f_departure f - now < 0"
  shows "checkin_search uid now flt req s = (reply 500 False MsgSearchFailed, s)"
proof -
  have w: "update_booking_status (b_id b) ''missed'' None s = None"
    using bookings_by_reference_present[OF assms(3)] by (rule missed_write_rejected)
  show ?thesis
    using assms w unfolding checkin_search_def Let_def by simp
qed

text \<open>The same for a confirmation.\<close>

lemma checkin_confirm_departed:
  assumes "valid_confirm req" and "cf_booking_id req = Some bid"
    and "own_confirmed_bookings s bid uid = b # rest"
    and "check_ins_of s bid = []"
    and "filter (\<lambda>f. f_id f = b_flight_id b) (flights s) = f # frest"
    and "f_departure f - now < 0"
  shows "checkin_confirm uid now flt req s = (reply 500 False MsgConfirmFailed, s)"
proof -
  have "own_confirmed_bookings s bid uid \<noteq> []" using assms(3) by simp
  from missed_write_rejected[OF own_confirmed_present[OF this]]
  have w: "update_booking_status bid ''missed'' None s = None" .
  show ?thesis
    using assms w unfolding checkin_confirm_def by simp
qed

text \<open>
  Claim C6 (the missed transition) at its failing input: user 7 holds the confirmed booking
  1 (reference BKA12, passenger Lee, no check-in row) on a flight that departed one
  millisecond ago. The search and the confirmation both attempt the transition, the UPDATE
  is rejected because \<open>missed\<close> is no member of the status column, and both answer 500
  with the store unchanged: the booking stays \<open>confirmed\<close>, so the same call made again
  attempts the transition again and answers 500 again.
\<close>

theorem missed_transition_rejected:
  "f_departure demo_flight - 100000001 < 0 \<and>
   own_confirmed_bookings booked_store 1 7 = [demo_booking] \<and>
   check_ins_of booked_store 1 = [] \<and>
   enum_store booking_statuses ''missed'' = None \<and>
   checkin_search 7 100000001 None
       \<lparr>sr_booking_reference = ''BKA12'', sr_last_name = ''Lee''\<rparr> booked_store =
     (reply 500 False MsgSearchFailed, booked_store) \<and>
   checkin_confirm 7 100000001 None
       \<lparr>cf_booking_id = Some 1, cf_seat_numbers = [''12A''], cf_gate_number = None\<rparr> booked_store =
     (reply 500 False MsgConfirmFailed, booked_store) \<and>
   run [CheckinSearch 7 100000001 None \<lparr>sr_booking_reference = ''BKA12'', sr_last_name = ''Lee''\<rparr>,
        CheckinConfirm 7 100000001 None
          \<lparr>cf_booking_id = Some 1, cf_seat_numbers = [''12A''], cf_gate_number = None\<rparr>,
        CheckinSearch 7 100000002 None \<lparr>sr_booking_reference = ''BKA12'', sr_last_name = ''Lee''\<rparr>]
       booked_store = booked_store \<and>
   map b_status (bookings booked_store) = [''confirmed'']"
  by code_simp


section \<open>Create Booking: all or nothing\<close>

lemma insert_passenger_Some:
  assumes "insert_passenger uid d s = Some (pid, s0)"
  shows "\<exists>t0. s0 = s\<lparr>passengers := passengers s @ [t0]\<rparr> \<and> p_id t0 = pid"
  using assms unfolding insert_passenger_def Let_def
  by (auto split: option.splits)

lemma insert_booking_passenger_Some:
  assumes "insert_booking_passenger bid pid seat s = Some s1"
  shows "\<exists>l. s1 = s\<lparr>booking_passengers := booking_passengers s @ [l]\<rparr> \<and> bp_booking_id l = bid"
  using assms unfolding insert_booking_passenger_def
  by (auto split: option.splits if_splits)

lemma insert_booking_Some:
  assumes "insert_booking ref uid fid n cls amount s = Some (bid, s0)"
  shows "\<exists>reference stored_class.
           varchar 20 ref = Some reference \<and> enum_store fare_classes cls = Some stored_class \<and>
           decimal_10_2 amount \<and> bid = next_id (map b_id (bookings s)) \<and>
           s0 = s\<lparr>bookings := bookings s @
                  [new_booking bid reference uid fid n stored_class amount]\<rparr>"
  using assms unfolding insert_booking_def Let_def
  by (auto split: option.splits if_splits)

lemma add_passengers_effect:
  "add_passengers flt uid bid k ds s = Some (k', s') \<Longrightarrow>
     bookings s' = bookings s \<and> flights s' = flights s \<and> aircraft s' = aircraft s \<and>
     check_ins s' = check_ins s \<and>
     (\<exists>links. booking_passengers s' = booking_passengers s @ links \<and>
              length links = length ds \<and> (\<forall>bp \<in> set links. bp_booking_id bp = bid)) \<and>
     (\<exists>travellers. passengers s' = passengers s @ travellers \<and>
              length travellers = length (without_id ds))"
proof (induction ds arbitrary: k s)
  case Nil
  then show ?case by (simp add: without_id_def)
next
  case (Cons d ds)
  show ?case
  proof (cases "truthy_id (pi_passenger_id d)")
    case (Some pid)
    from Cons.prems Some obtain s1 where
      ib: "insert_booking_passenger bid pid (or_null (pi_seat_number d)) s = Some s1"
      and r: "add_passengers flt uid bid (Suc k) ds s1 = Some (k', s')"
      by (auto split: if_splits option.splits)
    from insert_booking_passenger_Some[OF ib] obtain l0 where
      s1: "s1 = s\<lparr>booking_passengers := booking_passengers s @ [l0]\<rparr>" and l0: "bp_booking_id l0 = bid"
      by blast
    from Cons.IH[OF r] obtain links travellers where
      t: "bookings s' = bookings s1" "flights s' = flights s1" "aircraft s' = aircraft s1"
         "check_ins s' = check_ins s1"
      and l: "booking_passengers s' = booking_passengers s1 @ links" "length links = length ds"
             "\<forall>bp \<in> set links. bp_booking_id bp = bid"
      and p: "passengers s' = passengers s1 @ travellers" "length travellers = length (without_id ds)"
      by blast
    have l2: "booking_passengers s' = booking_passengers s @ (l0 # links) \<and>
              length (l0 # links) = length (d # ds) \<and>
              (\<forall>bp \<in> set (l0 # links). bp_booking_id bp = bid)"
      using l l0 by (simp add: s1)
    have p2: "passengers s' = passengers s @ travellers \<and>
              length travellers = length (without_id (d # ds))"
      using p Some by (simp add: s1 without_id_def)
    from t l2 p2 show ?thesis
      by (simp add: s1)
  next
    case None
    from Cons.prems None obtain pid s0 s1 where
      ip: "insert_passenger uid d s = Some (pid, s0)"
      and ib: "insert_booking_passenger bid pid (or_null (pi_seat_number d)) s0 = Some s1"
      and r: "add_passengers flt uid bid (Suc (Suc k)) ds s1 = Some (k', s')"
      by (auto split: if_splits option.splits)
    from insert_passenger_Some[OF ip] obtain t0 where s0: "s0 = s\<lparr>passengers := passengers s @ [t0]\<rparr>"
      by blast
    from insert_booking_passenger_Some[OF ib] obtain l0 where
      s1: "s1 = s0\<lparr>booking_passengers := booking_passengers s0 @ [l0]\<rparr>" and l0: "bp_booking_id l0 = bid"
      by blast
    from Cons.IH[OF r] obtain links travellers where
      t: "bookings s' = bookings s1" "flights s' = flights s1" "aircraft s' = aircraft s1"
         "check_ins s' = check_ins s1"
      and l: "booking_passengers s' = booking_passengers s1 @ links" "length links = length ds"
             "\<forall>bp \<in> set links. bp_booking_id bp = bid"
      and p: "passengers s' = passengers s1 @ travellers" "length travellers = length (without_id ds)"
      by blast
    have l2: "booking_passengers s' = booking_passengers s @ (l0 # links) \<and>
              length (l0 # links) = length (d # ds) \<and>
              (\<forall>bp \<in> set (l0 # links). bp_booking_id bp = bid)"
      using l l0 by (simp add: s1 s0)
    have p2: "passengers s' = passengers s @ (t0 # travellers) \<and>
              length (t0 # travellers) = length (without_id (d # ds))"
      using p None by (simp add: s1 s0 without_id_def)
    from t l2 p2 show ?thesis
      by (simp add: s1 s0)
  qed
qed

lemma create_tx_Inr:
  assumes "create_tx uid ref flt req s = Inr (k, bid, s')"
  shows "booking_added uid ref req s s' \<and> bid = next_id (map b_id (bookings s))"
proof -
  let ?cls = "case cr_class req of None \<Rightarrow> ''economy'' | Some c \<Rightarrow> c"
  let ?n = "length (cr_passengers req)"
  from assms obtain fid where fid: "truthy_id (cr_flight_id req) = Some fid"
    unfolding create_tx_def Let_def by (cases "truthy_id (cr_flight_id req)") (simp_all split: if_splits)
  from assms fid have n0: "?n \<noteq> 0"
    unfolding create_tx_def Let_def by (simp split: if_splits)
  from assms fid n0 obtain f a rest where fl: "bookable_flights s fid = (f, a) # rest"
    unfolding create_tx_def Let_def
    by (cases "bookable_flights s fid") (auto split: if_splits)
  let ?bid = "next_id (map b_id (bookings s))"
  from assms fid n0 fl have cap: "\<not> ac_capacity a - int (booked_seats s fid) < int ?n"
    unfolding create_tx_def Let_def by (simp split: if_splits)
  from assms fid n0 fl cap obtain b0 s0 where
    ins: "insert_booking ref uid fid ?n ?cls (fare_price ?cls f * int ?n) s = Some (b0, s0)"
    unfolding create_tx_def Let_def
    by (cases "insert_booking ref uid fid ?n ?cls (fare_price ?cls f * int ?n) s")
       (auto split: if_splits)
  from assms fid n0 fl cap ins obtain k0 where
    ap: "add_passengers flt uid b0 4 (cr_passengers req) s0 = Some (k0, s')" and b: "bid = b0"
    unfolding create_tx_def Let_def
    by (cases "add_passengers flt uid b0 4 (cr_passengers req) s0")
       (auto split: if_splits)
  from insert_booking_Some[OF ins] obtain reference stored_class where
    v: "varchar 20 ref = Some reference" and e: "enum_store fare_classes ?cls = Some stored_class"
    and b0: "b0 = ?bid"
    and s0: "s0 = s\<lparr>bookings := bookings s @
                  [new_booking b0 reference uid fid ?n stored_class (fare_price ?cls f * int ?n)]\<rparr>"
    by blast
  from add_passengers_effect[OF ap] obtain links travellers where
      t: "bookings s' = bookings s0" "flights s' = flights s0" "aircraft s' = aircraft s0"
         "check_ins s' = check_ins s0"
      and l: "booking_passengers s' = booking_passengers s0 @ links" "length links = ?n"
             "\<forall>bp \<in> set links. bp_booking_id bp = b0"
      and p: "passengers s' = passengers s0 @ travellers"
             "length travellers = length (without_id (cr_passengers req))"
    by blast
  have "booking_added uid ref req s s'"
    unfolding booking_added_def
    apply (rule exI[of _ fid], rule exI[of _ f], rule exI[of _ a], rule exI[of _ rest],
           rule exI[of _ links], rule exI[of _ travellers], rule exI[of _ reference],
           rule exI[of _ stored_class])
    using fid fl n0 cap t l p v e by (simp add: s0 b0)
  with b b0 show ?thesis by simp
qed

lemma create_tx_Inl:
  assumes "create_tx uid ref flt req s = Inl r"
  shows "\<not> r_success r \<and> (r_code r = 400 \<or> r_code r = 404 \<or> r_code r = 500)"
proof -
  have "r = reply 500 False MsgCreateFailed \<or> r = reply 400 False MsgFlightAndPassengersRequired \<or>
        r = reply 404 False MsgFlightNotFoundOrUnavailable \<or>
        (\<exists>n. r = reply 400 False (MsgNotEnoughSeats n))"
    using assms unfolding create_tx_def Let_def
    by (auto split: if_splits option.splits list.splits)
  then show ?thesis by (auto simp: reply_def)
qed

lemma create_booking_all_or_nothing:
  "snd (create_booking uid ref flt req s) = s \<or>
   booking_added uid ref req s (snd (create_booking uid ref flt req s))"
proof (cases "create_tx uid ref flt req s")
  case (Inl r)
  then show ?thesis by (simp add: create_booking_def)
next
  case (Inr x)
  obtain k bid s' where x: "x = (k, bid, s')" by (cases x)
  from create_tx_Inr[OF Inr[unfolded x]] have "booking_added uid ref req s s'" by simp
  then show ?thesis by (simp add: create_booking_def Inr x)
qed

lemma create_booking_created:
  assumes "r_code (fst (create_booking uid ref flt req s)) = 201"
  shows "booking_added uid ref req s (snd (create_booking uid ref flt req s))"
proof (cases "create_tx uid ref flt req s")
  case (Inl r)
  with create_tx_Inl[OF Inl] assms show ?thesis by (simp add: create_booking_def)
next
  case (Inr x)
  obtain k bid s' where x: "x = (k, bid, s')" by (cases x)
  from create_tx_Inr[OF Inr[unfolded x]] have a: "booking_added uid ref req s s'" by simp
  from assms have "snd (create_booking uid ref flt req s) = s'"
    by (simp add: create_booking_def Inr x reply_def split: if_splits)
  with a show ?thesis by simp
qed

lemma create_booking_rejected:
  assumes "r_code (fst (create_booking uid ref flt req s)) = 400 \<or>
           r_code (fst (create_booking uid ref flt req s)) = 404"
  shows "snd (create_booking uid ref flt req s) = s"
proof (cases "create_tx uid ref flt req s")
  case (Inl r)
  then show ?thesis by (simp add: create_booking_def)
next
  case (Inr x)
  obtain k bid s' where x: "x = (k, bid, s')" by (cases x)
  from assms show ?thesis
    by (simp add: create_booking_def Inr x reply_def reply_data_def split: if_splits)
qed

lemma create_booking_rollback:
  assumes "create_tx uid ref flt req s = Inr (k, bid, s')" and "flt \<noteq> Some (Suc k)"
  shows "r_success (fst (create_booking uid ref flt req s)) \<or>
         snd (create_booking uid ref flt req s) = s"
  using assms by (simp add: create_booking_def throws_def reply_data_def)

lemma booking_added_differs: "booking_added uid ref req s s' \<Longrightarrow> s' \<noteq> s"
  unfolding booking_added_def by auto

text \<open>
  Claim C2 (Create Booking is atomic) at its failing input: user 7 books the one seat of the
  example flight for one new passenger and the database call that reads the booking back
  after the commit (call 7) throws. The handler answers 500 "Failed to create booking" and
  the booking, its link and its passenger are committed. With no failing call the same
  request answers 201 with the same store; with the commit itself failing (call 6) it
  answers 500 and the store is unchanged.
\<close>

theorem create_booking_failure_after_commit:
  "create_booking 7 ''BKA12'' (Some 7) demo_request demo_store =
     (reply 500 False MsgCreateFailed, booked_store) \<and>
   bookings booked_store = [demo_booking] \<and> bookings demo_store = [] \<and>
   create_booking 7 ''BKA12'' None demo_request demo_store =
     (reply_data 201 True MsgBookingCreated (BookingData (Some demo_booking)), booked_store) \<and>
   create_booking 7 ''BKA12'' (Some 6) demo_request demo_store =
     (reply 500 False MsgCreateFailed, demo_store)"
  by code_simp


section \<open>The total amount of a booking\<close>

lemma max_id_ge: "x \<in> set xs \<Longrightarrow> x \<le> max_id xs"
  by (induction xs) auto

lemma next_id_fresh: "next_id xs \<notin> set xs"
  using max_id_ge[of "next_id xs" xs] by (auto simp: next_id_def)




lemma cancel_booking_effect:
  "snd (cancel_booking uid flt bookingId s) = s \<or>
   (\<exists>bid. snd (cancel_booking uid flt bookingId s) =
      update_bookings bid (\<lambda>b. b\<lparr>b_status := ''cancelled'', b_payment_status := ''refunded''\<rparr>) s)"
proof (cases bookingId)
  case None
  then show ?thesis by (simp add: cancel_booking_def)
next
  case (Some bid)
  then show ?thesis
    by (cases "own_bookings s bid uid") (auto simp add: cancel_booking_def cancel_write)
qed

lemma update_status_effect:
  "snd (update_status uid flt bookingId status s) = s \<or>
   (\<exists>bid st. bookingId = Some bid \<and> status = Some st \<and>
      (st = ''completed'' \<or> st = ''cancelled'') \<and>
      snd (update_status uid flt bookingId status s) =
        update_bookings bid (\<lambda>b. b\<lparr>b_status := st\<rparr>) s)"
proof (cases bookingId)
  case None
  then show ?thesis by (simp add: update_status_def)
next
  case (Some bid)
  show ?thesis
  proof (cases "or_null status")
    case None
    then show ?thesis using Some by (simp add: update_status_def)
  next
    case st: (Some st)
    then have e: "status = Some st" by (cases status) (simp_all split: if_splits)
    show ?thesis
    proof (cases "own_bookings s bid uid = []")
      case True
      then show ?thesis using Some st by (simp add: update_status_def)
    next
      case False
      consider "st = ''completed'' \<or> st = ''cancelled''" | "st = ''missed''"
        | "st \<notin> set [''completed'', ''missed'', ''cancelled'']"
        by auto
      then show ?thesis
      proof cases
        case 1
        have "snd (update_status uid flt (Some bid) (Some st) s) = s \<or>
              snd (update_status uid flt (Some bid) (Some st) s) =
                update_bookings bid (\<lambda>b. b\<lparr>b_status := st\<rparr>) s"
          using 1
          by (cases "first_row (own_bookings s bid uid)")
             (auto simp add: update_status_def update_booking_status_stored[OF enum_completed]
                update_booking_status_stored[OF enum_cancelled])
        with 1 e Some show ?thesis by blast
      next
        case 2
        from update_status_missed[OF False, of flt] show ?thesis
          using Some e 2 by simp
      next
        case 3
        then show ?thesis using Some st by (simp add: update_status_def)
      qed
    qed
  qed
qed

lemma write_check_in_effect:
  "snd (write_check_in now flt req bid f s) = s \<or>
   (\<exists>ps gate t. snd (write_check_in now flt req bid f s) = seat_writes ps (add_check_in bid now gate t s))"
proof (cases "insert_check_in bid now (gate_or_tba (cf_gate_number req)) (f_departure f - 1800000) s")
  case None
  then show ?thesis unfolding write_check_in_def Let_def by simp
next
  case (Some s1)
  then obtain gate where s1: "s1 = add_check_in bid now gate (f_departure f - 1800000) s"
    unfolding insert_check_in_def by (auto split: if_splits option.splits)
  show ?thesis
  proof (cases "assign_seats flt 6 (zip (passenger_links s bid) (cf_seat_numbers req)) s1")
    case None
    then show ?thesis unfolding write_check_in_def Let_def by (simp add: Some)
  next
    case r: (Some r)
    obtain k s' where rr: "r = (k, s')" by (cases r)
    from assign_seats_Some[OF r[unfolded rr]]
    have s': "s' = seat_writes (zip (passenger_links s bid) (cf_seat_numbers req)) s1" by simp
    have "snd (write_check_in now flt req bid f s) = s \<or>
          snd (write_check_in now flt req bid f s) =
            seat_writes (zip (passenger_links s bid) (cf_seat_numbers req)) s1"
      unfolding write_check_in_def Let_def by (simp add: Some r rr s')
    then show ?thesis unfolding s1 by blast
  qed
qed

lemma checkin_confirm_effect:
  "snd (checkin_confirm uid now flt req s) = s \<or>
   (\<exists>ps bid gate t. snd (checkin_confirm uid now flt req s) =
      seat_writes ps (add_check_in bid now gate t s))"
proof (cases "cf_booking_id req")
  case None
  then show ?thesis by (simp add: checkin_confirm_def)
next
  case (Some bid)
  show ?thesis
  proof (cases "own_confirmed_bookings s bid uid")
    case Nil
    then show ?thesis by (simp add: checkin_confirm_def Some)
  next
    case (Cons b rest)
    then have "own_confirmed_bookings s bid uid \<noteq> []" by simp
    from missed_write_rejected[OF own_confirmed_present[OF this]]
    have w: "update_booking_status bid ''missed'' None s = None" .
    show ?thesis
    proof (cases "filter (\<lambda>f. f_id f = b_flight_id b) (flights s)")
      case Nil
      then show ?thesis by (simp add: checkin_confirm_def Some Cons)
    next
      case fl: (Cons f frest)
      have "snd (checkin_confirm uid now flt req s) = s \<or>
            snd (checkin_confirm uid now flt req s) = snd (write_check_in now flt req bid f s)"
        unfolding checkin_confirm_def
        by (simp add: Some Cons fl w)
      with write_check_in_effect[of now flt req bid f s] show ?thesis by metis
    qed
  qed
qed













text \<open>
  A class that equals none of the three members is priced at the base fare, and a booking is
  created only when the ENUM column accepts the string: the class \<open>2\<close> is stored as the
  second member, the class \<open>premium\<close> is rejected and nothing is created.
\<close>

lemma create_booking_other_classes:
  "create_booking 7 ''BKA12'' None (demo_request\<lparr>cr_class := Some ''2''\<rparr>) demo_store =
     (reply_data 201 True MsgBookingCreated
        (BookingData (Some (demo_booking\<lparr>b_class := ''business''\<rparr>))),
      booked_store\<lparr>bookings := [demo_booking\<lparr>b_class := ''business''\<rparr>]\<rparr>) \<and>
   create_booking 7 ''BKA12'' None (demo_request\<lparr>cr_class := Some ''premium''\<rparr>) demo_store =
     (reply 500 False MsgCreateFailed, demo_store)"
  by code_simp


section \<open>The capacity invariant\<close>

subsection \<open>Keys\<close>

lemma keys_ok_update_bookings:
  assumes "\<And>b. b_id (g b) = b_id b" and "keys_ok s"
  shows "keys_ok (update_bookings bid g s)"
proof -
  have "map b_id (bookings (update_bookings bid g s)) = map b_id (bookings s)"
    unfolding update_bookings_def by (simp add: assms(1))
  moreover have "flights (update_bookings bid g s) = flights s"
    "aircraft (update_bookings bid g s) = aircraft s"
    "booking_passengers (update_bookings bid g s) = booking_passengers s"
    by (simp_all add: update_bookings_def)
  ultimately show ?thesis using assms(2) unfolding keys_ok_def by simp
qed

lemma seat_writes_link_keys:
  "map bp_booking_id (booking_passengers (seat_writes ps s)) = map bp_booking_id (booking_passengers s)"
proof (induction ps arbitrary: s)
  case Nil
  then show ?case by (simp add: seat_writes_def)
next
  case (Cons p ps)
  obtain i seat where p: "p = (i, seat)" by (cases p)
  have "seat_writes (p # ps) s = seat_writes ps (write_seat i (toUpperCase (trim seat)) s)"
    by (simp add: seat_writes_def p)
  moreover have "map bp_booking_id (booking_passengers (write_seat i x s)) =
                 map bp_booking_id (booking_passengers s)" for x
    by (simp add: write_seat_def comp_def)
  ultimately show ?case using Cons.IH by simp
qed

lemma keys_ok_seat_writes:
  assumes "keys_ok s"
  shows "keys_ok (seat_writes ps (add_check_in bid now gate t s))"
proof -
  let ?s' = "seat_writes ps (add_check_in bid now gate t s)"
  have a: "bookings ?s' = bookings s" "flights ?s' = flights s" "aircraft ?s' = aircraft s"
    by (simp_all add: seat_writes_other_tables add_check_in_def)
  have "map bp_booking_id (booking_passengers ?s') = map bp_booking_id (booking_passengers s)"
    by (simp add: seat_writes_link_keys add_check_in_def)
  then have "bp_booking_id ` set (booking_passengers ?s') = bp_booking_id ` set (booking_passengers s)"
    by (metis set_map)
  then have "\<forall>bp \<in> set (booking_passengers ?s'). bp_booking_id bp \<in> set (map b_id (bookings s))"
    using assms unfolding keys_ok_def by (metis imageE imageI)
  then show ?thesis using assms a unfolding keys_ok_def by simp
qed

lemma keys_ok_booking_added:
  assumes "keys_ok s" and "booking_added uid ref req s s'"
  shows "keys_ok s'"
proof -
  let ?bid = "next_id (map b_id (bookings s))"
  from assms(2) obtain nb links where
    b: "bookings s' = bookings s @ [nb]" "b_id nb = ?bid"
    and l: "booking_passengers s' = booking_passengers s @ links"
           "\<forall>bp \<in> set links. bp_booking_id bp = ?bid"
    and o: "flights s' = flights s" "aircraft s' = aircraft s"
    unfolding booking_added_def by (auto simp: new_booking_def)
  have f: "?bid \<notin> set (map b_id (bookings s))" by (rule next_id_fresh)
  have d: "distinct (map b_id (bookings s'))"
    using assms(1) f b(2) unfolding keys_ok_def b(1) by simp
  have k: "\<forall>bp \<in> set (booking_passengers s'). bp_booking_id bp \<in> set (map b_id (bookings s'))"
    using assms(1) l(2) b(2) unfolding keys_ok_def l(1) b(1) by auto
  from d k o assms(1) show ?thesis unfolding keys_ok_def by simp
qed

subsection \<open>Booked seats\<close>

lemma length_filter_map_le:
  assumes "\<And>x. x \<in> set xs \<Longrightarrow> P' (h x) \<Longrightarrow> P x"
  shows "length (filter P' (map h xs)) \<le> length (filter P xs)"
  using assms by (induction xs) (auto simp: le_Suc_eq)

lemma booked_seats_update_le:
  assumes "\<And>b i. b \<in> set (bookings s) \<Longrightarrow>
             counted fid i (if b_id b = bid then g b else b) \<Longrightarrow> counted fid i b"
  shows "booked_seats (update_bookings bid g s) fid \<le> booked_seats s fid"
proof -
  have "length (filter (counted fid i) (map (\<lambda>b. if b_id b = bid then g b else b) (bookings s)))
        \<le> length (filter (counted fid i) (bookings s))" for i
    by (rule length_filter_map_le) (rule assms)
  then show ?thesis
    unfolding booked_seats_def update_bookings_def
    by (simp add: sum_list_mono)
qed

lemma booked_seats_seat_writes:
  "booked_seats (seat_writes ps (add_check_in bid now gate t s)) fid = booked_seats s fid"
proof -
  let ?s' = "seat_writes ps (add_check_in bid now gate t s)"
  have a: "bookings ?s' = bookings s"
    by (simp add: seat_writes_other_tables add_check_in_def)
  have m: "map bp_booking_id (booking_passengers ?s') = map bp_booking_id (booking_passengers s)"
    by (simp add: seat_writes_link_keys add_check_in_def)
  have e: "booked_seats x fid =
        sum_list (map (\<lambda>i. length (filter (counted fid i) (bookings x)))
                      (map bp_booking_id (booking_passengers x)))" for x
    unfolding booked_seats_def by (simp add: comp_def)
  show ?thesis unfolding e a m ..
qed

lemma booked_seats_booking_added:
  assumes "keys_ok s"
    and b: "bookings s' = bookings s @ [nb]" "b_id nb = next_id (map b_id (bookings s))"
           "b_status nb \<noteq> ''cancelled''"
    and l: "booking_passengers s' = booking_passengers s @ links"
           "\<forall>bp \<in> set links. bp_booking_id bp = next_id (map b_id (bookings s))"
  shows "booked_seats s' fid =
         booked_seats s fid + (if fid = b_flight_id nb then length links else 0)"
proof -
  let ?bid = "next_id (map b_id (bookings s))"
  have f: "?bid \<notin> set (map b_id (bookings s))" by (rule next_id_fresh)
  have old: "length (filter (counted fid (bp_booking_id bp)) (bookings s')) =
             length (filter (counted fid (bp_booking_id bp)) (bookings s))"
    if "bp \<in> set (booking_passengers s)" for bp
  proof -
    from that assms(1) have "bp_booking_id bp \<in> set (map b_id (bookings s))"
      unfolding keys_ok_def by blast
    with f have "bp_booking_id bp \<noteq> b_id nb" using b(2) by metis
    then show ?thesis unfolding b(1) by (simp add: counted_def)
  qed
  have new: "length (filter (counted fid (bp_booking_id bp)) (bookings s')) =
             (if fid = b_flight_id nb then 1 else 0)"
    if "bp \<in> set links" for bp
  proof -
    from that l(2) have i: "bp_booking_id bp = ?bid" by blast
    have "\<forall>x \<in> set (bookings s). b_id x \<noteq> ?bid"
    proof
      fix x assume "x \<in> set (bookings s)"
      then have "b_id x \<in> set (map b_id (bookings s))" by simp
      with f show "b_id x \<noteq> ?bid" by metis
    qed
    then have "filter (counted fid ?bid) (bookings s) = []"
      by (simp add: filter_empty_conv counted_def)
    then show ?thesis unfolding b(1) i using b(2,3) by (auto simp: counted_def)
  qed
  have "booked_seats s' fid =
        sum_list (map (\<lambda>bp. length (filter (counted fid (bp_booking_id bp)) (bookings s')))
                      (booking_passengers s)) +
        sum_list (map (\<lambda>bp. length (filter (counted fid (bp_booking_id bp)) (bookings s'))) links)"
    unfolding booked_seats_def l(1) by simp
  also have "sum_list (map (\<lambda>bp. length (filter (counted fid (bp_booking_id bp)) (bookings s')))
                      (booking_passengers s)) = booked_seats s fid"
    unfolding booked_seats_def using old by (simp cong: map_cong)
  also have "sum_list (map (\<lambda>bp. length (filter (counted fid (bp_booking_id bp)) (bookings s'))) links)
             = sum_list (map (\<lambda>bp. if fid = b_flight_id nb then 1 else 0) links)"
    using new by (simp cong: map_cong)
  also have "\<dots> = (if fid = b_flight_id nb then length links else 0)"
    by (simp add: sum_list_triv)
  finally show ?thesis .
qed


subsection \<open>Preservation\<close>

lemma capacity_respected_le:
  assumes "capacity_respected s" and "flights s' = flights s" and "aircraft s' = aircraft s"
    and "\<And>fid. booked_seats s' fid \<le> booked_seats s fid"
  shows "capacity_respected s'"
  unfolding capacity_respected_def assms(2,3)
proof (intro ballI impI)
  fix f a assume "f \<in> set (flights s)" "a \<in> set (aircraft s)" "f_aircraft_id f = ac_id a"
  with assms(1) have "int (booked_seats s (f_id f)) \<le> ac_capacity a"
    unfolding capacity_respected_def by blast
  moreover have "int (booked_seats s' (f_id f)) \<le> int (booked_seats s (f_id f))"
    using assms(4) by simp
  ultimately show "int (booked_seats s' (f_id f)) \<le> ac_capacity a" by linarith
qed

lemma update_bookings_tables:
  "flights (update_bookings bid g s) = flights s \<and> aircraft (update_bookings bid g s) = aircraft s"
  by (simp add: update_bookings_def)

lemma key_unique:
  assumes "distinct (map k xs)" and "x \<in> set xs" and "y \<in> set xs" and "k x = k y"
  shows "x = y"
  using assms by (simp add: distinct_map inj_on_def)

lemma set_bookable_flights:
  "set (bookable_flights s fid) =
     {(f, a). f \<in> set (flights s) \<and> a \<in> set (aircraft s) \<and> f_aircraft_id f = ac_id a \<and>
              f_id f = fid \<and> bookable f}"
  unfolding bookable_flights_def by auto

lemma capacity_booking_added:
  assumes k: "keys_ok s" and c: "capacity_respected s" and ba: "booking_added uid ref req s s'"
  shows "capacity_respected s'"
proof -
  let ?bid = "next_id (map b_id (bookings s))"
  let ?n = "length (cr_passengers req)"
  from ba obtain fid0 f0 a0 rest nb links where
    fl: "bookable_flights s fid0 = (f0, a0) # rest"
    and cap: "int ?n \<le> ac_capacity a0 - int (booked_seats s fid0)"
    and b: "bookings s' = bookings s @ [nb]" "b_id nb = ?bid" "b_status nb \<noteq> ''cancelled''"
           "b_flight_id nb = fid0"
    and l: "booking_passengers s' = booking_passengers s @ links" "length links = ?n"
           "\<forall>bp \<in> set links. bp_booking_id bp = ?bid"
    and o: "flights s' = flights s" "aircraft s' = aircraft s"
    unfolding booking_added_def by (auto simp: new_booking_def)
  have "(f0, a0) \<in> set (bookable_flights s fid0)" by (simp add: fl)
  then have m0: "f0 \<in> set (flights s)" "a0 \<in> set (aircraft s)" "f_aircraft_id f0 = ac_id a0"
      "f_id f0 = fid0"
    unfolding set_bookable_flights by auto
  note bs = booked_seats_booking_added[OF k b(1-3) l(1,3)]
  show ?thesis
    unfolding capacity_respected_def o
  proof (intro ballI impI)
    fix f a assume fa: "f \<in> set (flights s)" "a \<in> set (aircraft s)" "f_aircraft_id f = ac_id a"
    with c have old: "int (booked_seats s (f_id f)) \<le> ac_capacity a"
      unfolding capacity_respected_def by blast
    show "int (booked_seats s' (f_id f)) \<le> ac_capacity a"
    proof (cases "f_id f = fid0")
      case False
      then show ?thesis using old unfolding bs b(4) by simp
    next
      case True
      from k have df: "distinct (map f_id (flights s))" and da: "distinct (map ac_id (aircraft s))"
        unfolding keys_ok_def by simp_all
      have "f = f0" using key_unique[OF df fa(1) m0(1)] True m0(4) by simp
      then have "ac_id a = ac_id a0" using fa(3) m0(3) by simp
      then have "a = a0" using key_unique[OF da fa(2) m0(2)] by simp
      then show ?thesis using cap True unfolding bs b(4) l(2) by simp
    qed
  qed
qed

lemma cancel_preserves:
  assumes "keys_ok s" and "capacity_respected s"
  shows "keys_ok (update_bookings bid (\<lambda>b. b\<lparr>b_status := ''cancelled'', b_payment_status := ''refunded''\<rparr>) s) \<and>
         capacity_respected (update_bookings bid (\<lambda>b. b\<lparr>b_status := ''cancelled'', b_payment_status := ''refunded''\<rparr>) s)"
proof
  let ?g = "\<lambda>b. b\<lparr>b_status := ''cancelled'', b_payment_status := ''refunded''\<rparr>"
  show "keys_ok (update_bookings bid ?g s)"
    by (rule keys_ok_update_bookings[OF _ assms(1)]) simp
  have "booked_seats (update_bookings bid ?g s) fid \<le> booked_seats s fid" for fid
    by (rule booked_seats_update_le) (simp add: counted_def split: if_splits)
  then show "capacity_respected (update_bookings bid ?g s)"
    using capacity_respected_le[OF assms(2)] update_bookings_tables by blast
qed

lemma status_preserves:
  assumes "keys_ok s" and "capacity_respected s"
    and "st = ''cancelled'' \<or> (\<forall>b \<in> set (bookings s). b_id b = bid \<longrightarrow> b_status b \<noteq> ''cancelled'')"
  shows "keys_ok (update_bookings bid (\<lambda>b. b\<lparr>b_status := st\<rparr>) s) \<and>
         capacity_respected (update_bookings bid (\<lambda>b. b\<lparr>b_status := st\<rparr>) s)"
proof
  let ?g = "\<lambda>b. b\<lparr>b_status := st\<rparr>"
  show "keys_ok (update_bookings bid ?g s)"
    by (rule keys_ok_update_bookings[OF _ assms(1)]) simp
  have "booked_seats (update_bookings bid ?g s) fid \<le> booked_seats s fid" for fid
  proof (rule booked_seats_update_le)
    fix b i assume "b \<in> set (bookings s)"
      and "counted fid i (if b_id b = bid then ?g b else b)"
    then show "counted fid i b"
      using assms(3) by (cases "b_id b = bid") (auto simp: counted_def)
  qed
  then show "capacity_respected (update_bookings bid ?g s)"
    using capacity_respected_le[OF assms(2)] update_bookings_tables by blast
qed

lemma seat_writes_preserves:
  assumes "keys_ok s" and "capacity_respected s"
  shows "keys_ok (seat_writes ps (add_check_in bid now gate t s)) \<and>
         capacity_respected (seat_writes ps (add_check_in bid now gate t s))"
proof
  show "keys_ok (seat_writes ps (add_check_in bid now gate t s))"
    using assms(1) by (rule keys_ok_seat_writes)
  show "capacity_respected (seat_writes ps (add_check_in bid now gate t s))"
  proof (rule capacity_respected_le[OF assms(2)])
    show "flights (seat_writes ps (add_check_in bid now gate t s)) = flights s"
      by (simp add: seat_writes_other_tables add_check_in_def)
    show "aircraft (seat_writes ps (add_check_in bid now gate t s)) = aircraft s"
      by (simp add: seat_writes_other_tables add_check_in_def)
    show "booked_seats (seat_writes ps (add_check_in bid now gate t s)) fid \<le> booked_seats s fid"
      for fid by (simp only: booked_seats_seat_writes order_refl)
  qed
qed

lemma ledger_step_preserves:
  assumes k: "keys_ok s" and c: "capacity_respected s" and st: "ledger_step s op"
  shows "keys_ok (snd (perform op s)) \<and> capacity_respected (snd (perform op s))"
proof (cases op)
  case (CreateBooking uid ref flt req)
  from create_booking_all_or_nothing[of uid ref flt req s] show ?thesis
    unfolding CreateBooking perform.simps
    using k c keys_ok_booking_added capacity_booking_added by metis
next
  case (CancelBooking uid flt bid)
  from cancel_booking_effect[of uid flt bid s] show ?thesis
    unfolding CancelBooking perform.simps
    using k c cancel_preserves by metis
next
  case (UpdateStatus uid flt bookingId status)
  from update_status_effect[of uid flt bookingId status s]
  consider "snd (update_status uid flt bookingId status s) = s"
    | bid x where "bookingId = Some bid" "status = Some x"
        "snd (update_status uid flt bookingId status s) = update_bookings bid (\<lambda>b. b\<lparr>b_status := x\<rparr>) s"
    by blast
  then show ?thesis
  proof cases
    case 1
    then show ?thesis unfolding UpdateStatus perform.simps using k c by simp
  next
    case 2
    from st have "x = ''cancelled'' \<or> (\<forall>b \<in> set (bookings s). b_id b = bid \<longrightarrow> b_status b \<noteq> ''cancelled'')"
      unfolding UpdateStatus 2(1,2) by auto
    from status_preserves[OF k c this] show ?thesis
      unfolding UpdateStatus perform.simps 2(3) .
  qed
next
  case (CheckinSearch uid now flt req)
  then show ?thesis using k c by (simp add: checkin_search_read_only)
next
  case (CheckinConfirm uid now flt req)
  from checkin_confirm_effect[of uid now flt req s] show ?thesis
    unfolding CheckinConfirm perform.simps
    using k c seat_writes_preserves by metis
next
  case (SearchFlights flt q)
  then show ?thesis using k c by (simp add: search_flights_read_only)
next
  case (AdminUpdateFlight flt fid u)
  then show ?thesis using st by simp
next
  case (AdminUpdateBookingStatus flt bid x pst)
  then show ?thesis using st by simp
qed

lemma create_booking_admits:
  assumes "snd (create_booking uid ref flt req s) \<noteq> s"
  shows "\<exists>fid f a rest. truthy_id (cr_flight_id req) = Some fid \<and>
           bookable_flights s fid = (f, a) # rest \<and>
           int (length (cr_passengers req)) \<le> ac_capacity a - int (booked_seats s fid)"
proof -
  from create_booking_all_or_nothing[of uid ref flt req s] assms
  have "booking_added uid ref req s (snd (create_booking uid ref flt req s))" by blast
  then show ?thesis unfolding booking_added_def by blast
qed

text \<open>
  Claim C1 (capacity invariant), as amended. On a store with unique booking, flight and
  aircraft ids whose links name existing bookings, the capacity invariant (and the key
  constraints) hold after every run of user-facing ledger operations (create, cancel,
  update-status, check-in search and confirm, flight search, with any failing database
  calls) in which no status update takes a cancelled booking to another status. In any
  store, POST /create commits only when the flight is bookable and the requested passenger
  count is at most the capacity minus the booked count.
\<close>

theorem capacity_invariant_preserved:
  assumes "keys_ok s" and "capacity_respected s" and "ledger_run ops s"
  shows "capacity_respected (run ops s) \<and> keys_ok (run ops s) \<and>
         (\<forall>uid ref flt req.
            snd (create_booking uid ref flt req s) \<noteq> s \<longrightarrow>
            (\<exists>fid f a rest. truthy_id (cr_flight_id req) = Some fid \<and>
               bookable_flights s fid = (f, a) # rest \<and>
               int (length (cr_passengers req)) \<le> ac_capacity a - int (booked_seats s fid)))"
proof -
  have "capacity_respected (run ops s) \<and> keys_ok (run ops s)"
    using assms
  proof (induction ops arbitrary: s)
    case Nil
    then show ?case by simp
  next
    case (Cons op ops)
    from Cons.prems(3) have st: "ledger_step s op" and r: "ledger_run ops (snd (perform op s))"
      by simp_all
    from ledger_step_preserves[OF Cons.prems(1,2) st]
    have "keys_ok (snd (perform op s))" "capacity_respected (snd (perform op s))" by simp_all
    from Cons.IH[OF this r] show ?case by simp
  qed
  then show ?thesis using create_booking_admits by blast
qed

theorem capacity_invariant_preserved_witness:
  "capacity_respected (run rebooking_ops demo_store) \<and>
   booked_seats (run rebooking_ops demo_store) 1 = 1 \<and>
   fst (create_booking 9 ''BKC56'' None demo_request (run rebooking_ops demo_store)) =
     reply 400 False (MsgNotEnoughSeats 0)"
proof -
  have h1: "keys_ok demo_store" by code_simp
  have h2: "capacity_respected demo_store" by code_simp
  have h3: "ledger_run rebooking_ops demo_store" by code_simp
  have e1: "booked_seats (run rebooking_ops demo_store) 1 = 1" by code_simp
  have e2: "fst (create_booking 9 ''BKC56'' None demo_request (run rebooking_ops demo_store)) =
     reply 400 False (MsgNotEnoughSeats 0)" by code_simp
  from capacity_invariant_preserved[OF h1 h2 h3] have "capacity_respected (run rebooking_ops demo_store)"
    by (rule conjunct1)
  with e1 e2 show ?thesis by (intro conjI)
qed

theorem capacity_invariant_preserved_counterexample:
  "capacity_respected (run rebooking_ops demo_store) \<and>
   \<not> capacity_respected
       (snd (perform (UpdateStatus 7 None (Some 1) (Some ''completed''))
               (run rebooking_ops demo_store))) \<and>
   run overbooking_ops demo_store = overbooked_store \<and>
   booked_seats overbooked_store 1 = 2 \<and>
   aircraft overbooked_store = [\<lparr>ac_id = 1, ac_capacity = 1\<rparr>]"
  by code_simp


end
